theory Spec2Isabelle
  imports Main "HOL-Library.Sublist"
begin

section \<open>Cards and the deck (src/server/gameLogic.js, lines 6-45)\<close>

text \<open>
  A card is the object \<open>{ color, value }\<close>. The colours are the strings
  \<open>'red'\<close>, \<open>'green'\<close>, \<open>'blue'\<close>, \<open>'yellow'\<close>, \<open>'wild'\<close>; the values are
  \<open>'0'\<close> .. \<open>'9'\<close>, \<open>'skip'\<close>, \<open>'reverse'\<close>, \<open>'draw2'\<close>, \<open>'wild'\<close>, \<open>'draw4'\<close>.
  The field \<open>value\<close> is called \<open>val\<close> here.
\<close>

datatype color = Red | Green | Blue | Yellow | Wild

datatype cvalue = Digit nat | Skip | Reverse | Draw2 | WildValue | Draw4

record card =
  color :: color
  val :: cvalue

text \<open>
  JavaScript's \<open>undefined\<close> is \<open>None\<close>: \<open>deck.pop()\<close> on an empty array returns it
  and \<open>hand.push\<close> stores it, so an entry of a hand is a \<open>card option\<close>. Reading a
  property of \<open>undefined\<close> or \<open>null\<close> throws a TypeError.
\<close>

datatype jserror = TypeError

definition colors :: "color list" where
  "colors = [Red, Green, Blue, Yellow]"

definition values_list :: "cvalue list" where
  "values_list = map Digit [0..<10] @ [Skip, Reverse, Draw2]"

definition createDeck :: "card list" where
  "createDeck =
     concat (map (\<lambda>c. concat (map (\<lambda>v.
        replicate (if v = Digit 0 then 1 else 2) \<lparr>color = c, val = v\<rparr>) values_list)) colors)
     @ concat (replicate 4 [\<lparr>color = Wild, val = WildValue\<rparr>, \<lparr>color = Wild, val = Draw4\<rparr>])"

text \<open>
  \<open>shuffleDeck\<close> is Fisher-Yates on a copy. The random source is a parameter:
  \<open>pick i\<close> is the value of \<open>Math.floor(Math.random() * (i + 1))\<close> drawn at loop
  index \<open>i\<close>, reduced modulo \<open>i + 1\<close> since that expression lies in \<open>0..i\<close>.
\<close>

definition swap :: "nat \<Rightarrow> nat \<Rightarrow> 'a list \<Rightarrow> 'a list" where
  "swap i j xs = xs[i := xs ! j, j := xs ! i]"

fun shuffleLoop :: "(nat \<Rightarrow> nat) \<Rightarrow> nat \<Rightarrow> 'a list \<Rightarrow> 'a list" where
  "shuffleLoop pick 0 xs = xs"
| "shuffleLoop pick (Suc i) xs = shuffleLoop pick i (swap (Suc i) (pick (Suc i) mod (Suc i + 1)) xs)"

definition shuffleDeck :: "(nat \<Rightarrow> nat) \<Rightarrow> 'a list \<Rightarrow> 'a list" where
  "shuffleDeck pick deck = shuffleLoop pick (length deck - 1) deck"

section \<open>Rule validator (lines 54-107)\<close>

text \<open>
  The callback of \<open>playerHand.some\<close> in \<open>canPlayCard\<close>: it stops at the first entry
  that matches, and throws on an \<open>undefined\<close> entry reached before that.
\<close>

fun hasMatchingColor :: "color option \<Rightarrow> card option list \<Rightarrow> jserror + bool" where
  "hasMatchingColor cc [] = Inr False"
| "hasMatchingColor cc (None # hs) = Inl TypeError"
| "hasMatchingColor cc (Some h # hs) =
     (if Some (color h) = cc \<and> color h \<noteq> Wild then Inr True else hasMatchingColor cc hs)"

text \<open>
  \<open>canPlayCard(card, topCard, currentColor, playerHand)\<close>. The hand the callers pass is
  always an array; \<open>null\<close> and the empty array take the same branch (line 78).
  \<open>currentColor\<close> and \<open>topCard\<close> are \<open>null\<close> until the first card is revealed.
\<close>

fun canPlayCard :: "card option \<Rightarrow> card option \<Rightarrow> color option \<Rightarrow> card option list \<Rightarrow> jserror + bool" where
  "canPlayCard None topCard currentColor playerHand = Inl TypeError"
| "canPlayCard (Some c) topCard currentColor playerHand =
     (if color c = Wild \<and> val c = Draw4 then
        (if playerHand \<noteq> [] then
           (case hasMatchingColor currentColor playerHand of
              Inl e \<Rightarrow> Inl e
            | Inr m \<Rightarrow> if m then Inr False else Inr True)
         else Inr True)
      else if color c = Wild then Inr True
      else if Some (color c) = currentColor then Inr True
      else (case topCard of
              None \<Rightarrow> Inl TypeError
            | Some t \<Rightarrow> if val c = val t \<and> color c \<noteq> Wild then Inr True else Inr False))"

fun somePlayable :: "card option \<Rightarrow> color option \<Rightarrow> card option list \<Rightarrow> card option list \<Rightarrow> jserror + bool" where
  "somePlayable topCard currentColor playerHand [] = Inr False"
| "somePlayable topCard currentColor playerHand (c # cs) =
     (case canPlayCard c topCard currentColor playerHand of
        Inl e \<Rightarrow> Inl e
      | Inr b \<Rightarrow> if b then Inr True else somePlayable topCard currentColor playerHand cs)"

definition hasPlayableCard :: "card option list \<Rightarrow> card option \<Rightarrow> color option \<Rightarrow> jserror + bool" where
  "hasPlayableCard playerHand topCard currentColor =
     (if playerHand = [] then Inr False
      else somePlayable topCard currentColor playerHand playerHand)"

section \<open>Game state (lines 145-190)\<close>

text \<open>
  A player object. \<open>id\<close> is called \<open>pid\<close>. The properties \<open>disconnected\<close> and
  \<open>originalName\<close> are absent until a disconnect sets them: an absent \<open>disconnected\<close> is
  falsy (\<open>False\<close>), an absent \<open>originalName\<close> is \<open>None\<close>.
\<close>

record player =
  pid :: string
  socketId :: string
  hand :: "card option list"
  name :: string
  wallet :: "string option"
  hasUno :: bool
  disconnected :: bool
  originalName :: "string option"

datatype status = Dealing | Playing | Finished

text \<open>
  \<open>currentPlayerIndex\<close> is a JavaScript number: an integer, or \<open>NaN\<close> once a remainder
  by zero players was taken.
\<close>

datatype jsnum = Num int | NaN

record gameState =
  players :: "player list"
  deck :: "card list"
  discardPile :: "card list"
  topCard :: "card option"
  currentPlayerIndex :: jsnum
  direction :: int
  status :: status
  winner :: "int option"
  currentColor :: "color option"
  hasDrawnPlayableCard :: bool
  hasPlayedCardThisTurn :: bool
  waitingForUno :: bool

text \<open>
  The \<open>Game\<close> object: the game state and the turn timer. \<open>turnTimer\<close> holds the time
  at which the pending \<open>setTimeout\<close> of the turn is due (\<open>None\<close> for \<open>null\<close>).
  \<open>pendingStarts\<close> lists the due times of the deferred \<open>startTurnTimer\<close> callbacks
  that \<open>setTimeout\<close> has scheduled. \<open>turnTransitioning\<close> is only ever written.
  The clock (\<open>Date.now()\<close>) and the random source are arguments of each operation.
  The three notification hooks and the console output do not touch the game and are
  left out.
\<close>

record game =
  gameState :: gameState
  turnTimer :: "nat option"
  turnStartTime :: "nat option"
  turnExpiresAt :: "nat option"
  pendingStarts :: "nat list"
  turnTransitioning :: "bool option"

definition turnTimeLimit :: nat where "turnTimeLimit = 15000"
definition dealingAnimationDelay :: nat where "dealingAnimationDelay = 5000"
definition ANIMATION_DURATION :: nat where "ANIMATION_DURATION = 1200"

subsection \<open>JavaScript arithmetic and array access\<close>

definition jsadd :: "jsnum \<Rightarrow> int \<Rightarrow> jsnum" where
  "jsadd x d = (case x of NaN \<Rightarrow> NaN | Num a \<Rightarrow> Num (a + d))"

text \<open>The remainder \<open>%\<close> truncates towards zero and is \<open>NaN\<close> for a zero divisor.\<close>

definition jsmod :: "jsnum \<Rightarrow> int \<Rightarrow> jsnum" where
  "jsmod x n = (case x of NaN \<Rightarrow> NaN
                | Num a \<Rightarrow> if n = 0 then NaN else Num (sgn a * (\<bar>a\<bar> mod \<bar>n\<bar>)))"

text \<open>\<open>players[i]\<close>: \<open>undefined\<close> outside the array.\<close>

definition playerAt :: "player list \<Rightarrow> jsnum \<Rightarrow> player option" where
  "playerAt ps x = (case x of NaN \<Rightarrow> None
                    | Num i \<Rightarrow> if 0 \<le> i \<and> i < int (length ps) then Some (ps ! nat i) else None)"

text \<open>\<open>Array.prototype.findIndex\<close>: the first index that satisfies the test, or \<open>-1\<close>.\<close>

fun findIndexFrom :: "int \<Rightarrow> ('a \<Rightarrow> bool) \<Rightarrow> 'a list \<Rightarrow> int" where
  "findIndexFrom k P [] = -1"
| "findIndexFrom k P (x # xs) = (if P x then k else findIndexFrom (k + 1) P xs)"

definition findIndex :: "('a \<Rightarrow> bool) \<Rightarrow> 'a list \<Rightarrow> int" where
  "findIndex P xs = findIndexFrom 0 P xs"

text \<open>\<open>deck.pop()\<close>: the last element and the shortened array; \<open>undefined\<close> when empty.\<close>

definition pop :: "card list \<Rightarrow> card option \<times> card list" where
  "pop d = (if d = [] then (None, []) else (Some (last d), butlast d))"

text \<open>\<open>name.replace(' (Disconnected)', '')\<close> deletes the first occurrence.\<close>

fun removeFirst :: "string \<Rightarrow> string \<Rightarrow> string" where
  "removeFirst pat [] = []"
| "removeFirst pat (c # cs) =
     (if prefix pat (c # cs) then drop (length pat) (c # cs) else c # removeFirst pat cs)"

definition stripDisconnected :: "string \<Rightarrow> string" where
  "stripDisconnected s = removeFirst '' (Disconnected)'' s"

text \<open>Decimal rendering of the seat number in the default name \<open>Player n\<close>.\<close>

definition digitChar :: "nat \<Rightarrow> char" where
  "digitChar d = char_of (48 + d)"

fun stringOfNat :: "nat \<Rightarrow> string" where
  "stringOfNat n = (if n < 10 then [digitChar n] else stringOfNat (n div 10) @ [digitChar (n mod 10)])"

declare stringOfNat.simps [simp del]

subsection \<open>reshuffleDeck, nextTurn (lines 112-140)\<close>

definition reshuffleDeck :: "(nat \<Rightarrow> nat) \<Rightarrow> gameState \<Rightarrow> gameState" where
  "reshuffleDeck pick gs =
     (if length (discardPile gs) \<le> 1 then gs
      else gs\<lparr>deck := shuffleDeck pick (butlast (discardPile gs)),
              discardPile := [last (discardPile gs)]\<rparr>)"

definition nextTurn :: "gameState \<Rightarrow> gameState" where
  "nextTurn gs =
     gs\<lparr>currentPlayerIndex :=
          jsmod (jsadd (jsadd (currentPlayerIndex gs) (direction gs)) (int (length (players gs))))
                (int (length (players gs))),
        hasDrawnPlayableCard := False,
        hasPlayedCardThisTurn := False,
        waitingForUno := False,
        players := map (\<lambda>p. p\<lparr>hasUno := False\<rparr>) (players gs)\<rparr>"

text \<open>
  The step that recurs at lines 327-330, 343-347, 659-662 and 730-735: reshuffle when the
  deck is empty, then push \<open>deck.pop()\<close> onto the hand of seat \<open>i\<close>. When the
  reshuffle was refused the deck is still empty and \<open>undefined\<close> is pushed.
\<close>

definition drawInto :: "(nat \<Rightarrow> nat) \<Rightarrow> nat \<Rightarrow> gameState \<Rightarrow> gameState" where
  "drawInto pick i gs =
     (let gs1 = (if deck gs = [] then reshuffleDeck pick gs else gs);
          (c, d) = pop (deck gs1);
          p = players gs1 ! i
      in gs1\<lparr>deck := d, players := (players gs1)[i := p\<lparr>hand := hand p @ [c]\<rparr>]\<rparr>)"

subsection \<open>The turn timer (lines 195-299)\<close>

definition clearTurnTimer :: "game \<Rightarrow> game" where
  "clearTurnTimer g = g\<lparr>turnTimer := None, turnStartTime := None, turnExpiresAt := None\<rparr>"

definition jsless :: "jsnum \<Rightarrow> int \<Rightarrow> bool" where
  "jsless x n = (case x of NaN \<Rightarrow> False | Num a \<Rightarrow> a < n)"

definition jsgeq :: "jsnum \<Rightarrow> int \<Rightarrow> bool" where
  "jsgeq x n = (case x of NaN \<Rightarrow> False | Num a \<Rightarrow> a \<ge> n)"

definition startTurnTimerWithDuration :: "nat \<Rightarrow> nat \<Rightarrow> game \<Rightarrow> game" where
  "startTurnTimerWithDuration duration now g0 =
     (let g = clearTurnTimer g0; gs = gameState g in
      if status gs \<noteq> Playing then g
      else if players gs = [] then g
      else if jsless (currentPlayerIndex gs) 0
              \<or> jsgeq (currentPlayerIndex gs) (int (length (players gs))) then g
      else (case playerAt (players gs) (currentPlayerIndex gs) of
              None \<Rightarrow> g
            | Some currentPlayer \<Rightarrow>
                g\<lparr>turnStartTime := Some now,
                  turnExpiresAt := Some (now + duration),
                  turnTimer := Some (now + duration)\<rparr>))"

text \<open>\<open>startTurnTimer\<close> has the same body with \<open>this.turnTimeLimit\<close> as the duration.\<close>

definition startTurnTimer :: "nat \<Rightarrow> game \<Rightarrow> game" where
  "startTurnTimer now g = startTurnTimerWithDuration turnTimeLimit now g"

text \<open>\<open>setTimeout(() => this.startTurnTimer(), delay)\<close>.\<close>

definition deferStart :: "nat \<Rightarrow> nat \<Rightarrow> game \<Rightarrow> game" where
  "deferStart now delay g = g\<lparr>pendingStarts := pendingStarts g @ [now + delay]\<rparr>"

text \<open>The deferred callback itself: the \<open>k\<close>-th pending entry is consumed and the timer starts.\<close>

definition runDeferredStart :: "nat \<Rightarrow> nat \<Rightarrow> game \<Rightarrow> game" where
  "runDeferredStart k now g =
     startTurnTimer now
       (g\<lparr>pendingStarts := take k (pendingStarts g) @ drop (Suc k) (pendingStarts g)\<rparr>)"

subsection \<open>Constructor and dealing (lines 146-190, 417-430)\<close>

definition dealTo :: "nat \<Rightarrow> gameState \<Rightarrow> gameState" where
  "dealTo playerIndex gs =
     (if length (deck gs) > 0 then
        gs\<lparr>deck := butlast (deck gs),
           players := (players gs)[playerIndex :=
              (players gs ! playerIndex)\<lparr>hand := hand (players gs ! playerIndex) @ [Some (last (deck gs))]\<rparr>]\<rparr>
      else gs)"

definition dealCards :: "gameState \<Rightarrow> gameState" where
  "dealCards gs =
     fold (\<lambda>cardIndex gs'. fold dealTo [0..<length (players gs)] gs') [0..<7] gs"

definition newPlayer :: "string list \<Rightarrow> string list \<Rightarrow> nat \<Rightarrow> string \<Rightarrow> player" where
  "newPlayer playerNames playerWallets index i =
     \<lparr>pid = i, socketId = i, hand = [],
      name = (if index < length playerNames \<and> playerNames ! index \<noteq> []
              then playerNames ! index else ''Player '' @ stringOfNat (index + 1)),
      wallet = (if index < length playerWallets \<and> playerWallets ! index \<noteq> []
                then Some (playerWallets ! index) else None),
      hasUno = False, disconnected = False, originalName = None\<rparr>"

definition newGame :: "string list \<Rightarrow> string list \<Rightarrow> string list \<Rightarrow> (nat \<Rightarrow> nat) \<Rightarrow> game" where
  "newGame playerIds playerNames playerWallets pick =
     \<lparr>gameState = dealCards
        \<lparr>players = map (\<lambda>(index, i). newPlayer playerNames playerWallets index i)
                       (enumerate 0 playerIds),
         deck = shuffleDeck pick createDeck,
         discardPile = [],
         topCard = None,
         currentPlayerIndex = Num 0,
         direction = 1,
         status = Dealing,
         winner = None,
         currentColor = None,
         hasDrawnPlayableCard = False,
         hasPlayedCardThisTurn = False,
         waitingForUno = False\<rparr>,
      turnTimer = None, turnStartTime = None, turnExpiresAt = None,
      pendingStarts = [], turnTransitioning = None\<rparr>"

subsection \<open>drawFirstCard (lines 435-469)\<close>

text \<open>
  \<open>rc\<close> is the value of \<open>Math.floor(Math.random() * colors.length)\<close>. An operation
  returns what the call returns, or the exception it throws, together with the game as
  the call leaves it.
\<close>

definition drawFirstCard :: "(nat \<Rightarrow> nat) \<Rightarrow> nat \<Rightarrow> nat \<Rightarrow> game \<Rightarrow> (jserror + unit) \<times> game" where
  "drawFirstCard pick rc now g =
     (let gs0 = gameState g;
          gs1 = (if deck gs0 = [] then reshuffleDeck pick gs0 else gs0);
          (c, d) = pop (deck gs1)
      in case c of
           None \<Rightarrow> (Inl TypeError, g\<lparr>gameState := gs1\<lparr>deck := d\<rparr>\<rparr>)
         | Some card0 \<Rightarrow>
             (let firstCard = (if color card0 = Wild
                               then card0\<lparr>color := colors ! (rc mod length colors)\<rparr> else card0);
                  n = int (length (players gs1));
                  gs2 = gs1\<lparr>deck := d\<rparr>;
                  gs3 = (if val firstCard = Skip then
                           gs2\<lparr>currentPlayerIndex :=
                                 jsmod (jsadd (currentPlayerIndex gs2) (direction gs2)) n\<rparr>
                         else if val firstCard = Reverse then
                           (if length (players gs2) = 2 then
                              gs2\<lparr>currentPlayerIndex :=
                                    jsmod (jsadd (currentPlayerIndex gs2) (direction gs2)) n\<rparr>
                            else gs2\<lparr>direction := -1\<rparr>)
                         else gs2);
                  gs4 = gs3\<lparr>discardPile := discardPile gs3 @ [firstCard],
                            topCard := Some firstCard,
                            currentColor := Some (color firstCard),
                            status := Playing\<rparr>
              in (Inr (), deferStart now dealingAnimationDelay (g\<lparr>gameState := gs4\<rparr>))))"

subsection \<open>getPublicState (lines 886-931)\<close>

record publicPlayer =
  pp_id :: string
  pp_name :: string
  pp_hand :: "card option list"
  pp_handSize :: nat
  pp_hasUno :: bool

record publicState =
  ps_waitingForUno :: bool
  ps_players :: "publicPlayer list"
  ps_deckCount :: nat
  ps_discardPile :: "card list"
  ps_topCard :: "card option"
  ps_currentPlayerIndex :: jsnum
  ps_direction :: int
  ps_status :: status
  ps_winner :: "int option"
  ps_currentColor :: "color option"
  ps_hasDrawnPlayableCard :: bool

text \<open>
  The argument is \<open>None\<close> when \<open>playerId\<close> is omitted (\<open>null\<close>). The test
  \<open>playerId && player.id !== playerId\<close> is false for \<open>null\<close> and for the empty
  string. \<open>turnTimeRemaining\<close> is computed at lines 888-893 and never used.
\<close>

definition publicPlayerOf :: "string option \<Rightarrow> player \<Rightarrow> publicPlayer" where
  "publicPlayerOf playerId p =
     (if playerId \<noteq> None \<and> playerId \<noteq> Some [] \<and> Some (pid p) \<noteq> playerId then
        \<lparr>pp_id = pid p, pp_name = name p, pp_hand = [],
         pp_handSize = length (hand p), pp_hasUno = hasUno p\<rparr>
      else
        \<lparr>pp_id = pid p, pp_name = name p, pp_hand = hand p,
         pp_handSize = length (hand p), pp_hasUno = hasUno p\<rparr>)"

definition getPublicState :: "string option \<Rightarrow> game \<Rightarrow> publicState" where
  "getPublicState playerId g =
     (let gs = gameState g in
      \<lparr>ps_waitingForUno = waitingForUno gs,
       ps_players = map (publicPlayerOf playerId) (players gs),
       ps_deckCount = length (deck gs),
       ps_discardPile = discardPile gs,
       ps_topCard = topCard gs,
       ps_currentPlayerIndex = currentPlayerIndex gs,
       ps_direction = direction gs,
       ps_status = status gs,
       ps_winner = winner gs,
       ps_currentColor = currentColor gs,
       ps_hasDrawnPlayableCard = hasDrawnPlayableCard gs\<rparr>)"

subsection \<open>Results of the player actions\<close>

record result =
  success :: bool
  message :: string
  resultState :: "publicState option"
  drawnCard :: "card option"
  canPlayImmediately :: "bool option"
  mustDecide :: "bool option"

definition failure :: "string \<Rightarrow> result" where
  "failure m = \<lparr>success = False, message = m, resultState = None, drawnCard = None,
                canPlayImmediately = None, mustDecide = None\<rparr>"

definition succeeded :: "string \<Rightarrow> game \<Rightarrow> result" where
  "succeeded m g = \<lparr>success = True, message = m, resultState = Some (getPublicState None g),
                    drawnCard = None, canPlayImmediately = None, mustDecide = None\<rparr>"

subsection \<open>playCard (lines 478-679)\<close>

text \<open>
  \<open>cardIndex\<close> is an integer and \<open>chosenColor\<close> a colour or \<open>null\<close>; a string
  that is not one of the four colours behaves as \<open>Some Wild\<close> does.
\<close>

fun drawN :: "(nat \<Rightarrow> nat) \<Rightarrow> nat \<Rightarrow> nat \<Rightarrow> gameState \<Rightarrow> gameState" where
  "drawN pick i 0 gs = gs"
| "drawN pick i (Suc k) gs = drawN pick i k (drawInto pick i gs)"

definition isActionValue :: "cvalue \<Rightarrow> bool" where
  "isActionValue v = (v = Skip \<or> v = Reverse \<or> v = Draw2 \<or> v = Draw4)"

text \<open>Lines 539-549: the colour a played card binds.\<close>

definition resolveColor :: "card \<Rightarrow> color option \<Rightarrow> color" where
  "resolveColor c chosenColor =
     (if color c = Wild then
        (case chosenColor of
           None \<Rightarrow> Red
         | Some ch \<Rightarrow> if ch \<in> set colors then ch else Red)
      else color c)"

text \<open>
  Lines 597-678, after the win check and the UNO check: the special effects, the turn
  advance and the deferred start of the next timer.
\<close>

definition playCardAdvance :: "card \<Rightarrow> (nat \<Rightarrow> nat) \<Rightarrow> nat \<Rightarrow> game \<Rightarrow> (jserror + result) \<times> game" where
  "playCardAdvance c pick now g =
     (let gs1 = gameState g;
          drawAmount = (if val c = Draw4 then 4 else if val c = Draw2 then 2 else (0::nat));
          skipTurn = (val c = Draw4 \<or> val c = Skip
                      \<or> (val c = Reverse \<and> length (players gs1) = 2) \<or> val c = Draw2);
          gs2 = (if val c = Reverse
                 then gs1\<lparr>direction := direction gs1 * (-1)\<rparr> else gs1);
          gs3 = gs2\<lparr>hasDrawnPlayableCard := False\<rparr>;
          g3 = clearTurnTimer (g\<lparr>gameState := gs3\<rparr>);
          totalDelay = ANIMATION_DURATION + (if drawAmount > 0 then ANIMATION_DURATION else 0)
      in if \<not> skipTurn then
           (let g4 = deferStart now ANIMATION_DURATION (g3\<lparr>gameState := nextTurn gs3\<rparr>)
            in (Inr (succeeded ''Card played'' g4), g4))
         else
           (let gs4 = nextTurn gs3 in
            if drawAmount > 0 then
              (case playerAt (players gs4) (currentPlayerIndex gs4) of
                 None \<Rightarrow>
                   (Inl TypeError,
                    g3\<lparr>gameState := (if deck gs4 = [] then reshuffleDeck pick gs4 else gs4)\<rparr>)
               | Some nextPlayer \<Rightarrow>
                   (let i = (case currentPlayerIndex gs4 of Num k \<Rightarrow> nat k | NaN \<Rightarrow> 0);
                        gs5 = drawN pick i drawAmount gs4;
                        g6 = deferStart now totalDelay (g3\<lparr>gameState := nextTurn gs5\<rparr>)
                    in (Inr (succeeded ''Card played'' g6), g6)))
            else
              (let g6 = deferStart now totalDelay (g3\<lparr>gameState := nextTurn gs4\<rparr>)
               in (Inr (succeeded ''Card played'' g6), g6))))"

text \<open>
  Lines 527-549: the accepted card leaves the hand (\<open>splice(cardIndex, 1)\<close>) and goes on
  the discard pile; the current colour is set.
\<close>

definition placeCard :: "int \<Rightarrow> nat \<Rightarrow> card \<Rightarrow> color option \<Rightarrow> gameState \<Rightarrow> gameState" where
  "placeCard playerIndex cardIndex c chosenColor gs =
     (let player0 = players gs ! nat playerIndex;
          player1 = player0\<lparr>hand := take cardIndex (hand player0) @ drop (Suc cardIndex) (hand player0)\<rparr>
      in gs\<lparr>players := (players gs)[nat playerIndex := player1],
            hasPlayedCardThisTurn := True,
            discardPile := discardPile gs @ [c],
            topCard := Some c,
            currentColor := Some (resolveColor c chosenColor)\<rparr>)"

text \<open>Lines 551-595: the win check and the UNO check.\<close>

definition playCardAccepted :: "int \<Rightarrow> nat \<Rightarrow> card \<Rightarrow> color option \<Rightarrow> (nat \<Rightarrow> nat) \<Rightarrow> nat \<Rightarrow> game
    \<Rightarrow> (jserror + result) \<times> game" where
  "playCardAccepted playerIndex cardIndex c chosenColor pick now g =
     (let gs1 = placeCard playerIndex cardIndex c chosenColor (gameState g);
          player1 = players gs1 ! nat playerIndex
      in if length (hand player1) = 0 then
           (let g2 = clearTurnTimer (g\<lparr>gameState := gs1\<lparr>status := Finished, winner := Some playerIndex\<rparr>\<rparr>)
            in (Inr (succeeded ''Player wins!'' g2), g2))
         else
           (let isActionCardGivingAnotherTurn = (length (players gs1) = 2 \<and> isActionValue (val c))
            in if length (hand player1) = 1 \<and> \<not> hasUno player1 \<and> \<not> isActionCardGivingAnotherTurn
                  \<and> hasPlayedCardThisTurn gs1 then
                 (let g2 = g\<lparr>gameState := gs1\<lparr>waitingForUno := True, hasDrawnPlayableCard := False\<rparr>,
                             turnTransitioning := Some False\<rparr>
                  in (Inr (succeeded ''Card played - call UNO!'' g2), g2))
               else playCardAdvance c pick now (g\<lparr>gameState := gs1\<rparr>)))"

definition playCard :: "string \<Rightarrow> int \<Rightarrow> color option \<Rightarrow> (nat \<Rightarrow> nat) \<Rightarrow> nat \<Rightarrow> game
    \<Rightarrow> (jserror + result) \<times> game" where
  "playCard playerId cardIndex chosenColor pick now g =
     (let gs = gameState g in
      if status gs \<noteq> Playing then (Inr (failure ''Game is not in playing state''), g)
      else
        (let playerIndex = findIndex (\<lambda>p. pid p = playerId) (players gs) in
         if playerIndex = -1 then (Inr (failure ''Player not found''), g)
         else if Num playerIndex \<noteq> currentPlayerIndex gs then (Inr (failure ''Not your turn''), g)
         else if waitingForUno gs then (Inr (failure ''You must call UNO first''), g)
         else
           (let player0 = players gs ! nat playerIndex in
            if length (hand player0) = 1 \<and> \<not> hasUno player0 \<and> hasPlayedCardThisTurn gs then
              (Inr (failure ''You must call UNO before playing another card''), g)
            else if cardIndex < 0 \<or> cardIndex \<ge> int (length (hand player0)) then
              (Inr (failure ''Invalid card index''), g)
            else
              (case hand player0 ! nat cardIndex of
                 None \<Rightarrow> (Inl TypeError, g)
               | Some c \<Rightarrow>
                   (case canPlayCard (Some c) (topCard gs) (currentColor gs) (hand player0) of
                      Inl e \<Rightarrow> (Inl e, g)
                    | Inr canPlay \<Rightarrow>
                        if \<not> canPlay then
                          (if color c = Wild \<and> val c = Draw4 then
                             (Inr (failure ''Cannot play Wild Draw 4: You have a card matching the current color''), g)
                           else (Inr (failure ''Cannot play this card''), g))
                        else playCardAccepted playerIndex (nat cardIndex) c chosenColor pick now g)))))"

subsection \<open>drawCard (lines 686-783)\<close>

text \<open>\<open>if (this.turnExpiresAt)\<close>: \<open>null\<close> and \<open>0\<close> are falsy.\<close>

definition truthyTime :: "nat option \<Rightarrow> bool" where
  "truthyTime t = (t \<noteq> None \<and> t \<noteq> Some 0)"

definition drawCard :: "string \<Rightarrow> (nat \<Rightarrow> nat) \<Rightarrow> nat \<Rightarrow> game \<Rightarrow> (jserror + result) \<times> game" where
  "drawCard playerId pick now g =
     (let gs = gameState g in
      if status gs \<noteq> Playing then (Inr (failure ''Game is not in playing state''), g)
      else
        (let playerIndex = findIndex (\<lambda>p. pid p = playerId) (players gs) in
         if playerIndex = -1 then (Inr (failure ''Player not found''), g)
         else if Num playerIndex \<noteq> currentPlayerIndex gs then (Inr (failure ''Not your turn''), g)
         else if waitingForUno gs then (Inr (failure ''You must call UNO first''), g)
         else
           (let player0 = players gs ! nat playerIndex;
                remainingTime = (if truthyTime (turnExpiresAt g)
                                 then the (turnExpiresAt g) - now else turnTimeLimit);
                g1 = clearTurnTimer g
            in if hasDrawnPlayableCard gs then
                 (Inr (failure ''You must play the drawn card or end your turn''), g1)
               else
                 (case hasPlayableCard (hand player0) (topCard gs) (currentColor gs) of
                    Inl e \<Rightarrow> (Inl e, g1)
                  | Inr hasPlayable \<Rightarrow>
                      if hasPlayable then
                        (Inr (failure ''You have a playable card. You must play a card before drawing.''), g1)
                      else
                        (let gs1 = (if deck gs = [] then reshuffleDeck pick gs else gs);
                             (drawn, d) = pop (deck gs1);
                             hand1 = hand player0 @ [drawn];
                             player1 = player0\<lparr>hand := hand1,
                                               hasUno := (if length hand1 > 1 then False else hasUno player0)\<rparr>;
                             gs2 = gs1\<lparr>deck := d, players := (players gs1)[nat playerIndex := player1]\<rparr>
                         in case canPlayCard drawn (topCard gs2) (currentColor gs2) hand1 of
                              Inl e \<Rightarrow> (Inl e, g1\<lparr>gameState := gs2\<rparr>)
                            | Inr canPlay \<Rightarrow>
                                if canPlay then
                                  (let g3 = startTurnTimerWithDuration remainingTime now
                                              (g1\<lparr>gameState := gs2\<lparr>hasDrawnPlayableCard := True\<rparr>\<rparr>)
                                   in (Inr ((succeeded ''Card drawn - you can play it or end your turn'' g3)
                                              \<lparr>drawnCard := drawn, canPlayImmediately := Some True,
                                               mustDecide := Some True\<rparr>), g3))
                                else
                                  (let g3 = deferStart now ANIMATION_DURATION
                                              (g1\<lparr>gameState := nextTurn gs2\<rparr>)
                                   in (Inr ((succeeded ''Card drawn - not playable, turn ends'' g3)
                                              \<lparr>drawnCard := drawn, canPlayImmediately := Some False\<rparr>),
                                       g3)))))))"

subsection \<open>endTurn and callUno (lines 790-879)\<close>

definition endTurn :: "string \<Rightarrow> nat \<Rightarrow> game \<Rightarrow> (jserror + result) \<times> game" where
  "endTurn playerId now g =
     (let gs = gameState g in
      if status gs \<noteq> Playing then (Inr (failure ''Game is not in playing state''), g)
      else
        (let playerIndex = findIndex (\<lambda>p. pid p = playerId) (players gs) in
         if playerIndex = -1 then (Inr (failure ''Player not found''), g)
         else if Num playerIndex \<noteq> currentPlayerIndex gs then (Inr (failure ''Not your turn''), g)
         else if \<not> hasDrawnPlayableCard gs then
           (Inr (failure ''You can only end your turn after drawing a playable card''), g)
         else
           (let g1 = clearTurnTimer g;
                g2 = deferStart now ANIMATION_DURATION
                       (g1\<lparr>gameState := nextTurn (gs\<lparr>hasDrawnPlayableCard := False\<rparr>)\<rparr>)
            in (Inr (succeeded ''Turn ended'' g2), g2))))"

definition callUno :: "string \<Rightarrow> nat \<Rightarrow> game \<Rightarrow> (jserror + result) \<times> game" where
  "callUno playerId now g =
     (let gs = gameState g in
      if status gs \<noteq> Playing then (Inr (failure ''Game is not in playing state''), g)
      else
        (let playerIndex = findIndex (\<lambda>p. pid p = playerId) (players gs) in
         if playerIndex = -1 then (Inr (failure ''Player not found''), g)
         else if Num playerIndex \<noteq> currentPlayerIndex gs then (Inr (failure ''Not your turn''), g)
         else
           (let player0 = players gs ! nat playerIndex in
            if length (hand player0) = 1 \<and> \<not> hasUno player0 then
              (let gs1 = gs\<lparr>players := (players gs)[nat playerIndex := player0\<lparr>hasUno := True\<rparr>],
                          hasDrawnPlayableCard := False\<rparr>;
                   g1 = clearTurnTimer (g\<lparr>gameState := gs1\<rparr>);
                   g2 = deferStart now ANIMATION_DURATION (g1\<lparr>gameState := nextTurn gs1\<rparr>)
               in (Inr (succeeded ''UNO called'' g2), g2))
            else (Inr (failure ''Cannot call UNO''), g))))"

subsection \<open>handleTurnTimeout (lines 304-391)\<close>

text \<open>
  The loop of lines 363-374 that skips disconnected seats. \<open>orig\<close> is the index saved at
  line 315. The loop returns \<open>True\<close> when it paused the game (line 370) and \<open>False\<close>
  when it stopped on a connected seat; it need not terminate for every direction, so
  its result is an option.
\<close>

definition jsStrictEq :: "jsnum \<Rightarrow> jsnum \<Rightarrow> bool" where
  "jsStrictEq x y = (case (x, y) of (Num a, Num b) \<Rightarrow> a = b | _ \<Rightarrow> False)"

definition advanceIndex :: "gameState \<Rightarrow> jsnum" where
  "advanceIndex gs =
     jsmod (jsadd (jsadd (currentPlayerIndex gs) (direction gs)) (int (length (players gs))))
           (int (length (players gs)))"

partial_function (option) skipDisconnected :: "jsnum \<Rightarrow> game \<Rightarrow> ((jserror + bool) \<times> game) option" where
  "skipDisconnected orig g =
     (case playerAt (players (gameState g)) (currentPlayerIndex (gameState g)) of
        None \<Rightarrow> Some (Inl TypeError, g)
      | Some p \<Rightarrow>
          if disconnected p then
            (if jsStrictEq (advanceIndex (gameState g)) orig
             then Some (Inr True, clearTurnTimer g)
             else skipDisconnected orig
                    (g\<lparr>gameState := (gameState g)\<lparr>currentPlayerIndex := advanceIndex (gameState g)\<rparr>\<rparr>))
          else Some (Inr False, g))"

definition indexOf :: "jsnum \<Rightarrow> nat" where
  "indexOf x = (case x of Num k \<Rightarrow> nat k | NaN \<Rightarrow> 0)"

text \<open>Lines 320-357: the penalty of the timed-out seat \<open>i\<close>.\<close>

definition timeoutPenalty :: "(nat \<Rightarrow> nat) \<Rightarrow> nat \<Rightarrow> gameState \<Rightarrow> gameState" where
  "timeoutPenalty pick i gs =
     (let currentPlayer = players gs ! i in
      if waitingForUno gs \<and> length (hand currentPlayer) = 1 \<and> \<not> hasUno currentPlayer then
        (let gs1 = drawN pick i 2 gs
         in gs1\<lparr>players := (players gs1)[i := (players gs1 ! i)\<lparr>hasUno := False\<rparr>],
                waitingForUno := False\<rparr>)
      else if hasDrawnPlayableCard gs then gs\<lparr>hasDrawnPlayableCard := False\<rparr>
      else
        (let gs1 = drawInto pick i gs;
             p1 = players gs1 ! i
         in gs1\<lparr>players := (players gs1)[i := (if length (hand p1) > 1 then p1\<lparr>hasUno := False\<rparr> else p1)],
                waitingForUno := False\<rparr>))"

definition handleTurnTimeout :: "(nat \<Rightarrow> nat) \<Rightarrow> nat \<Rightarrow> game \<Rightarrow> ((jserror + unit) \<times> game) option" where
  "handleTurnTimeout pick now g =
     (let gs = gameState g in
      if status gs \<noteq> Playing then Some (Inr (), g)
      else if turnExpiresAt g = None then Some (Inr (), g)
      else
        (case playerAt (players gs) (currentPlayerIndex gs) of
           None \<Rightarrow> Some (Inl TypeError, g)
         | Some currentPlayer \<Rightarrow>
             (let gs1 = timeoutPenalty pick (indexOf (currentPlayerIndex gs)) gs;
                  gs2 = nextTurn (gs1\<lparr>hasDrawnPlayableCard := False\<rparr>)
              in case skipDisconnected (currentPlayerIndex gs) (g\<lparr>gameState := gs2\<rparr>) of
                   None \<Rightarrow> None
                 | Some (Inl e, g') \<Rightarrow> Some (Inl e, g')
                 | Some (Inr paused, g') \<Rightarrow>
                     if paused then Some (Inr (), g') else Some (Inr (), startTurnTimer now g'))))"

subsection \<open>Disconnect and reconnect (lines 938-1021)\<close>

record disconnectResult =
  d_success :: bool
  d_message :: "string option"
  disconnectedPlayerIndex :: "int option"
  disconnectedPlayerName :: "string option"
  gameEnded :: "bool option"

definition handlePlayerDisconnect :: "string \<Rightarrow> game \<Rightarrow> disconnectResult \<times> game" where
  "handlePlayerDisconnect playerId g =
     (let gs = gameState g;
          playerIndex = findIndex (\<lambda>p. pid p = playerId) (players gs)
      in if playerIndex = -1 then
           (\<lparr>d_success = False, d_message = Some ''Player not found in game'',
             disconnectedPlayerIndex = None, disconnectedPlayerName = None, gameEnded = None\<rparr>, g)
         else
           (let disconnectedPlayer = players gs ! nat playerIndex in
            if status gs = Finished then
              (\<lparr>d_success = True, d_message = None,
                disconnectedPlayerIndex = Some playerIndex,
                disconnectedPlayerName = Some (name disconnectedPlayer), gameEnded = Some False\<rparr>, g)
            else
              (let original = stripDisconnected (name disconnectedPlayer);
                   p1 = disconnectedPlayer\<lparr>originalName := Some original, disconnected := True,
                                           name := original @ '' (Disconnected)''\<rparr>
               in (\<lparr>d_success = True, d_message = None,
                    disconnectedPlayerIndex = Some playerIndex,
                    disconnectedPlayerName = Some (name p1), gameEnded = Some False\<rparr>,
                   g\<lparr>gameState := gs\<lparr>players := (players gs)[nat playerIndex := p1]\<rparr>\<rparr>))))"

record reconnectResult =
  r_success :: bool
  r_message :: "string option"
  r_playerIndex :: "int option"
  r_playerName :: "string option"

text \<open>\<open>p.originalName || p.name.replace(' (Disconnected)', '')\<close>: an empty string is falsy.\<close>

definition reconnectName :: "player \<Rightarrow> string" where
  "reconnectName p =
     (case originalName p of
        None \<Rightarrow> stripDisconnected (name p)
      | Some orig \<Rightarrow> if orig \<noteq> [] then orig else stripDisconnected (name p))"

definition handlePlayerReconnect :: "string \<Rightarrow> string \<Rightarrow> string \<Rightarrow> nat \<Rightarrow> game \<Rightarrow> reconnectResult \<times> game" where
  "handlePlayerReconnect oldPlayerId newPlayerId playerName now g =
     (let gs = gameState g;
          playerIndex = findIndex (\<lambda>p. pid p = oldPlayerId \<or> reconnectName p = playerName) (players gs)
      in if playerIndex = -1 then
           (\<lparr>r_success = False, r_message = Some ''Player not found in game'',
             r_playerIndex = None, r_playerName = None\<rparr>, g)
         else
           (let player0 = (players gs ! nat playerIndex)\<lparr>pid := newPlayerId, socketId := newPlayerId\<rparr>;
                player1 = (case originalName player0 of
                             None \<Rightarrow> player0\<lparr>name := playerName\<rparr>
                           | Some orig \<Rightarrow>
                               if orig \<noteq> [] then player0\<lparr>name := orig, originalName := None\<rparr>
                               else player0\<lparr>name := playerName\<rparr>);
                player2 = player1\<lparr>disconnected := False\<rparr>;
                gs1 = gs\<lparr>players := (players gs)[nat playerIndex := player2]\<rparr>;
                g1 = g\<lparr>gameState := gs1\<rparr>;
                activePlayers = filter (\<lambda>p. \<not> disconnected p) (players gs1);
                g2 = (if length activePlayers > 0 \<and> status gs1 = Playing \<and> \<not> truthyTime (turnExpiresAt g1)
                      then startTurnTimer now g1 else g1)
            in (\<lparr>r_success = True, r_message = None,
                 r_playerIndex = Some playerIndex, r_playerName = Some (name player2)\<rparr>, g2)))"

section \<open>Notions used in the statements\<close>

text \<open>
  The rule set as the specification words it, for a hand of real cards: a wild-draw-four
  needs a hand without a non-wild card of the current colour, any other wild is legal, and
  a coloured card matches by colour, or by value unless the top card is wild.
\<close>

definition canPlayCard_spec :: "card \<Rightarrow> card \<Rightarrow> color option \<Rightarrow> card list \<Rightarrow> bool" where
  "canPlayCard_spec c t cc hs =
     (if color c = Wild \<and> val c = Draw4
      then \<not> (\<exists>h \<in> set hs. Some (color h) = cc \<and> color h \<noteq> Wild)
      else if color c = Wild then True
      else Some (color c) = cc \<or> (val c = val t \<and> color t \<noteq> Wild))"

text \<open>
  The idle sub-state in which a turn begins: no drawn card to decide on, no card played,
  no UNO call pending, no player marked as having called UNO.
\<close>

definition idle :: "gameState \<Rightarrow> bool" where
  "idle gs = (\<not> hasDrawnPlayableCard gs \<and> \<not> hasPlayedCardThisTurn gs \<and> \<not> waitingForUno gs
              \<and> (\<forall>p \<in> set (players gs). \<not> hasUno p))"

text \<open>
  Two players that are the same, or differ in the contents but not the size of the hand
  of a seat whose id is not \<open>s\<close>.
\<close>

definition sameButHiddenHands :: "string \<Rightarrow> player \<Rightarrow> player \<Rightarrow> bool" where
  "sameButHiddenHands s p q =
     (q = p \<or> (pid p \<noteq> s \<and> length (hand q) = length (hand p) \<and> q = p\<lparr>hand := hand q\<rparr>))"

text \<open>
  Two games with the same table: the same game state up to the turn index, and the same
  deferred timer starts.
\<close>

definition sameTable :: "game \<Rightarrow> game \<Rightarrow> bool" where
  "sameTable g g' =
     (gameState g' = (gameState g)\<lparr>currentPlayerIndex := currentPlayerIndex (gameState g')\<rparr>
      \<and> pendingStarts g' = pendingStarts g)"

text \<open>The entry that \<open>drawInto\<close> pushes.\<close>

definition drawnEntry :: "(nat \<Rightarrow> nat) \<Rightarrow> gameState \<Rightarrow> card option" where
  "drawnEntry pick gs = fst (pop (deck (if deck gs = [] then reshuffleDeck pick gs else gs)))"

text \<open>The number of entries the timeout of seat \<open>i\<close> adds to its hand (lines 323-354).\<close>

definition penaltySize :: "gameState \<Rightarrow> nat \<Rightarrow> nat" where
  "penaltySize gs i =
     (if waitingForUno gs \<and> length (hand (players gs ! i)) = 1 \<and> \<not> hasUno (players gs ! i) then 2
      else if hasDrawnPlayableCard gs then 0 else 1)"

text \<open>The state in which the loop of lines 363-374 starts.\<close>

definition afterPenalty :: "(nat \<Rightarrow> nat) \<Rightarrow> game \<Rightarrow> game" where
  "afterPenalty pick g =
     g\<lparr>gameState := nextTurn ((timeoutPenalty pick (indexOf (currentPlayerIndex (gameState g)))
                                  (gameState g))\<lparr>hasDrawnPlayableCard := False\<rparr>)\<rparr>"

text \<open>The card count \<open>|deck| + |discardPile| + \<Sigma>|hand|\<close>.\<close>

definition totalCards :: "gameState \<Rightarrow> nat" where
  "totalCards gs = length (deck gs) + length (discardPile gs)
                   + sum_list (map (\<lambda>p. length (hand p)) (players gs))"

text \<open>
  Two connected seats, nobody deciding or waiting, one card on the discard pile, \<open>m\<close>
  cards in the deck, 108 cards in all, the timer armed.
\<close>

definition idling :: "nat \<Rightarrow> game \<Rightarrow> bool" where
  "idling m g =
     (status (gameState g) = Playing \<and> length (players (gameState g)) = 2
      \<and> (currentPlayerIndex (gameState g) = Num 0 \<or> currentPlayerIndex (gameState g) = Num 1)
      \<and> (direction (gameState g) = 1 \<or> direction (gameState g) = -1)
      \<and> map disconnected (players (gameState g)) = [False, False]
      \<and> \<not> waitingForUno (gameState g) \<and> \<not> hasDrawnPlayableCard (gameState g)
      \<and> length (discardPile (gameState g)) = 1 \<and> length (deck (gameState g)) = m
      \<and> totalCards (gameState g) = 108
      \<and> turnTimer g \<noteq> None \<and> turnExpiresAt g \<noteq> None)"

section \<open>Example games\<close>

text \<open>
  Concrete games on which the theorems below are instantiated: a table in the playing
  state with its timer armed, seat 0 to move, the last card of the pile on top.
\<close>

definition seat :: "string \<Rightarrow> string \<Rightarrow> card option list \<Rightarrow> bool \<Rightarrow> player" where
  "seat i n h disc = \<lparr>pid = i, socketId = i, hand = h, name = n, wallet = None, hasUno = False,
                 disconnected = disc, originalName = None\<rparr>"

definition table :: "player list \<Rightarrow> card list \<Rightarrow> card list \<Rightarrow> game" where
  "table ps d pile =
     \<lparr>gameState = \<lparr>players = ps, deck = d, discardPile = pile, topCard = Some (last pile),
                   currentPlayerIndex = Num 0, direction = 1, status = Playing, winner = None,
                   currentColor = Some (color (last pile)), hasDrawnPlayableCard = False,
                   hasPlayedCardThisTurn = False, waitingForUno = False\<rparr>,
      turnTimer = Some 20000, turnStartTime = Some 5000, turnExpiresAt = Some 20000,
      pendingStarts = [], turnTransitioning = None\<rparr>"

definition red5 :: card where "red5 = \<lparr>color = Red, val = Digit 5\<rparr>"
definition red7 :: card where "red7 = \<lparr>color = Red, val = Digit 7\<rparr>"
definition blue3 :: card where "blue3 = \<lparr>color = Blue, val = Digit 3\<rparr>"
definition green1 :: card where "green1 = \<lparr>color = Green, val = Digit 1\<rparr>"

definition reverseCard :: card where "reverseCard = \<lparr>color = Red, val = Reverse\<rparr>"

definition duel :: game where
  "duel = table [seat ''s0'' ''Ann'' [Some red5, Some blue3] False, seat ''s1'' ''Bob'' [Some green1, Some blue3] False]
            [green1, blue3] [red7]"

definition duelOtherHand :: game where
  "duelOtherHand = duel\<lparr>gameState := (gameState duel)\<lparr>players :=
      [seat ''s0'' ''Ann'' [Some red5, Some blue3] False, seat ''s1'' ''Bob'' [Some red7, Some red5] False]\<rparr>\<rparr>"

definition lastCardTable :: game where
  "lastCardTable = table [seat ''s0'' ''Ann'' [Some red5] False,
                          seat ''s1'' ''Bob'' [Some green1, Some blue3] False] [green1, blue3] [red7]"

definition reverseTable :: game where
  "reverseTable = table [seat ''s0'' ''Ann'' [Some reverseCard, Some blue3, Some green1] False,
                         seat ''s1'' ''Bob'' [Some green1, Some blue3] False] [green1, blue3] [red7]"

definition waitingTable :: game where
  "waitingTable = (table [seat ''s0'' ''Ann'' [Some red5] False,
                         seat ''s1'' ''Bob'' [Some green1, Some blue3] False,
                         seat ''s2'' ''Cy'' [Some green1, Some red5] True] [green1, blue3] [red7])
       \<lparr>gameState := (gameState (table [seat ''s0'' ''Ann'' [Some red5] False,
                         seat ''s1'' ''Bob'' [Some green1, Some blue3] False,
                         seat ''s2'' ''Cy'' [Some green1, Some red5] True] [green1, blue3] [red7]))
            \<lparr>waitingForUno := True, hasPlayedCardThisTurn := True\<rparr>\<rparr>"

definition loneSeatTable :: game where
  "loneSeatTable = table [seat ''s0'' ''Ann'' [Some red5, Some blue3] False,
                          seat ''s1'' ''Bob (Disconnected)'' [Some green1, Some blue3] True]
                     [green1, blue3] [red7]"

definition stuckTable :: game where
  "stuckTable = table [seat ''s0'' ''Ann'' [Some blue3, Some green1] False,
                       seat ''s1'' ''Bob'' [Some green1, Some blue3] False] [green1, blue3] [red7]"

definition decidingTable :: game where
  "decidingTable = duel\<lparr>gameState := (gameState duel)\<lparr>hasDrawnPlayableCard := True\<rparr>\<rparr>"

definition flaggedState :: gameState where
  "flaggedState = (gameState duel)\<lparr>hasDrawnPlayableCard := True, hasPlayedCardThisTurn := True,
      waitingForUno := True,
      players := map (\<lambda>p. p\<lparr>hasUno := True\<rparr>) (players (gameState duel))\<rparr>"

text \<open>
  A game of two seats in which nobody acts: the deck keeps \<open>createDeck\<close>'s order (every
  random pick is the identity swap), the first card is revealed at time 0 and the
  deferred \<open>startTurnTimer\<close> of line 466 runs when it is due, at time 5000.
\<close>

definition afkGame :: game where
  "afkGame =
     (let g0 = newGame [''a'', ''b''] [''Ann'', ''Bob''] [] id;
          g1 = snd (drawFirstCard id 0 0 g0)
      in runDeferredStart 0 5000 g1)"

text \<open>\<open>k\<close> turn timeouts in a row, each fired at the time the pending timer is due.\<close>

fun timeouts :: "nat \<Rightarrow> game \<Rightarrow> game option" where
  "timeouts 0 g = Some g"
| "timeouts (Suc k) g =
     (case turnTimer g of
        None \<Rightarrow> None
      | Some due \<Rightarrow>
          (case handleTurnTimeout id due g of
             Some (Inr u, g') \<Rightarrow> timeouts k g'
           | _ \<Rightarrow> None))"

lemma hasMatchingColor_real:
  "hasMatchingColor cc (map Some hs) = Inr (\<exists>h \<in> set hs. Some (color h) = cc \<and> color h \<noteq> Wild)"
  by (induction hs) auto

lemma createDeck_length: "length createDeck = 108"
  by code_simp

section \<open>The rule validator against its specification\<close>

text \<open>
  C2 (as amended). On real cards \<open>canPlayCard\<close> decides: a wild-draw-four is accepted
  iff the hand holds no non-wild card of the current colour; any other wild card is
  accepted; a coloured card is accepted iff its colour is the current colour or its value
  is the value of the top card, whatever the colour of the top card.
\<close>

theorem canPlayCard_amended:
  "canPlayCard (Some c) (Some t) cc (map Some hs) =
     Inr (if color c = Wild \<and> val c = Draw4
          then \<not> (\<exists>h \<in> set hs. Some (color h) = cc \<and> color h \<noteq> Wild)
          else if color c = Wild then True
          else Some (color c) = cc \<or> val c = val t)"
  by (simp add: hasMatchingColor_real)

theorem canPlayCard_amended_witness:
  "canPlayCard (Some \<lparr>color = Wild, val = Draw4\<rparr>) (Some \<lparr>color = Red, val = Digit 7\<rparr>) (Some Red)
     (map Some [\<lparr>color = Wild, val = Draw4\<rparr>, \<lparr>color = Red, val = Digit 5\<rparr>]) = Inr False"
  using canPlayCard_amended [of "\<lparr>color = Wild, val = Draw4\<rparr>" "\<lparr>color = Red, val = Digit 7\<rparr>" "Some Red"
      "[\<lparr>color = Wild, val = Draw4\<rparr>, \<lparr>color = Red, val = Digit 5\<rparr>]"]
  by simp

text \<open>
  C2 as stated fails: a red card of value \<open>draw4\<close> (an opening wild-draw-four that
  \<open>drawFirstCard\<close> recoloured, later reshuffled and drawn) is accepted by value on a
  wild-draw-four top card while the current colour is blue, where the stated rule set
  rejects it.
\<close>

theorem canPlayCard_value_match_counterexample:
  "canPlayCard (Some \<lparr>color = Red, val = Draw4\<rparr>) (Some \<lparr>color = Wild, val = Draw4\<rparr>) (Some Blue)
     (map Some [\<lparr>color = Red, val = Draw4\<rparr>])
   \<noteq> Inr (canPlayCard_spec \<lparr>color = Red, val = Draw4\<rparr> \<lparr>color = Wild, val = Draw4\<rparr> (Some Blue)
            [\<lparr>color = Red, val = Draw4\<rparr>])"
  by (simp add: canPlayCard_spec_def)

section \<open>Rejected draws\<close>

lemma findIndexFrom_range:
  "findIndexFrom k P xs = i \<Longrightarrow> i \<noteq> -1 \<Longrightarrow> 0 \<le> k \<Longrightarrow>
     k \<le> i \<and> i < k + int (length xs) \<and> P (xs ! nat (i - k))"
proof (induction xs arbitrary: k)
  case Nil
  then show ?case by simp
next
  case (Cons x xs)
  show ?case
  proof (cases "P x")
    case True
    with Cons.prems show ?thesis by simp
  next
    case False
    with Cons.prems have "findIndexFrom (k + 1) P xs = i" by simp
    from Cons.IH [OF this] Cons.prems
    have ih: "k + 1 \<le> i \<and> i < k + 1 + int (length xs) \<and> P (xs ! nat (i - (k + 1)))" by simp
    then have "nat (i - k) = Suc (nat (i - (k + 1)))" by linarith
    with ih show ?thesis by simp
  qed
qed

lemma findIndex_range:
  assumes "findIndex P xs = i" "i \<noteq> -1"
  shows "0 \<le> i \<and> i < int (length xs) \<and> P (xs ! nat i)"
  using findIndexFrom_range [of 0 P xs i] assms by (simp add: findIndex_def)

lemma drawCard_reject_playable:
  assumes "status (gameState g) = Playing"
    and "findIndex (\<lambda>p. pid p = playerId) (players (gameState g)) = i" and "i \<noteq> -1"
    and "Num i = currentPlayerIndex (gameState g)"
    and "\<not> waitingForUno (gameState g)" and "\<not> hasDrawnPlayableCard (gameState g)"
    and "hasPlayableCard (hand (players (gameState g) ! nat i)) (topCard (gameState g))
            (currentColor (gameState g)) = Inr True"
  shows "drawCard playerId pick now g =
           (Inr (failure ''You have a playable card. You must play a card before drawing.''),
            clearTurnTimer g)"
  using assms by (simp add: drawCard_def Let_def)

lemma drawCard_reject_deciding:
  assumes "status (gameState g) = Playing"
    and "findIndex (\<lambda>p. pid p = playerId) (players (gameState g)) = i" and "i \<noteq> -1"
    and "Num i = currentPlayerIndex (gameState g)"
    and "\<not> waitingForUno (gameState g)" and "hasDrawnPlayableCard (gameState g)"
  shows "drawCard playerId pick now g =
           (Inr (failure ''You must play the drawn card or end your turn''), clearTurnTimer g)"
  using assms by (simp add: drawCard_def Let_def)

text \<open>
  C6. In the playing state, when the active seat is neither deciding on a drawn card nor
  waiting to call UNO and \<open>hasPlayableCard\<close> is true for its hand, \<open>drawCard\<close>
  returns \<open>success: false\<close>, and the game state (with the caller's hand and the deck) is
  as before.
\<close>

theorem drawCard_rejected_when_playable:
  assumes "status (gameState g) = Playing"
    and "findIndex (\<lambda>p. pid p = playerId) (players (gameState g)) = i" and "i \<noteq> -1"
    and "Num i = currentPlayerIndex (gameState g)"
    and "\<not> waitingForUno (gameState g)" and "\<not> hasDrawnPlayableCard (gameState g)"
    and "hasPlayableCard (hand (players (gameState g) ! nat i)) (topCard (gameState g))
            (currentColor (gameState g)) = Inr True"
  shows "\<exists>r g'. drawCard playerId pick now g = (Inr r, g') \<and> \<not> success r
           \<and> gameState g' = gameState g"
  using drawCard_reject_playable [OF assms, of pick now]
  by (simp add: failure_def clearTurnTimer_def)

theorem drawCard_rejected_when_playable_witness:
  "\<exists>r g'. drawCard ''s0'' id 9000 duel = (Inr r, g') \<and> \<not> success r
           \<and> gameState g' = gameState duel"
  apply (rule drawCard_rejected_when_playable [where i = 0])
  by (simp_all add: duel_def table_def seat_def findIndex_def hasPlayableCard_def red5_def red7_def blue3_def green1_def)

text \<open>
  C7 (a failing call returns \<open>success: false\<close> and leaves the game, with its armed
  deadline, unchanged) fails on \<open>drawCard\<close>: the timer is cleared at line 714, before
  the two rejections of lines 718-727, so the rejected draw returns \<open>success: false\<close> and
  leaves the game with no armed deadline. The failing calls of \<open>playCard\<close>,
  \<open>endTurn\<close> and \<open>callUno\<close> leave the game as it was (shown further below).
\<close>

theorem drawCard_rejection_clears_timer:
  assumes "status (gameState g) = Playing"
    and "findIndex (\<lambda>p. pid p = playerId) (players (gameState g)) = i" and "i \<noteq> -1"
    and "Num i = currentPlayerIndex (gameState g)"
    and "\<not> waitingForUno (gameState g)" and "\<not> hasDrawnPlayableCard (gameState g)"
    and "hasPlayableCard (hand (players (gameState g) ! nat i)) (topCard (gameState g))
            (currentColor (gameState g)) = Inr True"
    and "turnExpiresAt g = Some t"
  shows "\<exists>r g'. drawCard playerId pick now g = (Inr r, g') \<and> \<not> success r
           \<and> turnExpiresAt g' = None \<and> turnTimer g' = None \<and> turnExpiresAt g' \<noteq> turnExpiresAt g"
  using drawCard_reject_playable [OF assms(1-7), of pick now] assms(8)
  by (simp add: failure_def clearTurnTimer_def)

theorem drawCard_rejection_clears_timer_witness:
  "\<exists>r g'. drawCard ''s0'' id 9000 duel = (Inr r, g') \<and> \<not> success r
           \<and> turnExpiresAt g' = None \<and> turnTimer g' = None \<and> turnExpiresAt g' \<noteq> turnExpiresAt duel"
  apply (rule drawCard_rejection_clears_timer [where i = 0 and t = 20000])
  by (simp_all add: duel_def table_def seat_def findIndex_def hasPlayableCard_def red5_def red7_def blue3_def green1_def)

section \<open>Playing a card\<close>

lemma playCard_success_cases:
  assumes "playCard playerId cardIndex chosenColor pick now g = (Inr r, g')" "success r"
  obtains i c where "status (gameState g) = Playing"
    "findIndex (\<lambda>p. pid p = playerId) (players (gameState g)) = i" "i \<noteq> -1"
    "Num i = currentPlayerIndex (gameState g)" "\<not> waitingForUno (gameState g)"
    "0 \<le> cardIndex" "cardIndex < int (length (hand (players (gameState g) ! nat i)))"
    "hand (players (gameState g) ! nat i) ! nat cardIndex = Some c"
    "playCardAccepted i (nat cardIndex) c chosenColor pick now g = (Inr r, g')"
  using assms
  by (auto simp add: playCard_def Let_def failure_def split: if_splits option.splits sum.splits)

text \<open>
  C5. A \<open>playCard\<close> call that succeeds on a hand of one card empties the hand and ends
  the game at once: the status is finished, the winner is the caller's seat and the timer
  is cleared. Nothing asks whether the seat has called UNO, and no effect of the card is
  resolved: the turn index, the direction, the deck, the other hands and the deferred
  timer starts are as before.
\<close>

theorem playCard_last_card_wins:
  assumes "playCard playerId cardIndex chosenColor pick now g = (Inr r, g')" and "success r"
    and "findIndex (\<lambda>p. pid p = playerId) (players (gameState g)) = i"
    and "length (hand (players (gameState g) ! nat i)) = 1"
  shows "status (gameState g') = Finished \<and> winner (gameState g') = Some i
         \<and> turnTimer g' = None \<and> turnExpiresAt g' = None
         \<and> hand (players (gameState g') ! nat i) = []
         \<and> currentPlayerIndex (gameState g') = Num i
         \<and> direction (gameState g') = direction (gameState g)
         \<and> deck (gameState g') = deck (gameState g)
         \<and> waitingForUno (gameState g') = waitingForUno (gameState g)
         \<and> pendingStarts g' = pendingStarts g
         \<and> (\<forall>j. j \<noteq> nat i \<longrightarrow> players (gameState g') ! j = players (gameState g) ! j)"
proof -
  from assms(1,2) obtain i' c where
    h: "findIndex (\<lambda>p. pid p = playerId) (players (gameState g)) = i'" "i' \<noteq> -1"
       "Num i' = currentPlayerIndex (gameState g)"
       "0 \<le> cardIndex" "cardIndex < int (length (hand (players (gameState g) ! nat i')))"
       "playCardAccepted i' (nat cardIndex) c chosenColor pick now g = (Inr r, g')"
    by (rule playCard_success_cases)
  from h(1) assms(3) have ii: "i' = i" by simp
  from findIndex_range [OF h(1) h(2)] ii have rng: "0 \<le> i" "nat i < length (players (gameState g))"
    by auto
  from h(4,5) ii assms(4) have ci: "nat cardIndex = 0" by simp
  obtain x where hx: "hand (players (gameState g) ! nat i) = [x]"
    using assms(4) by (cases "hand (players (gameState g) ! nat i)") auto
  from h(6) ii ci hx rng have
    "g' = clearTurnTimer (g\<lparr>gameState := (gameState g)\<lparr>
            players := (players (gameState g))[nat i := (players (gameState g) ! nat i)\<lparr>hand := []\<rparr>],
            hasPlayedCardThisTurn := True,
            discardPile := discardPile (gameState g) @ [c],
            topCard := Some c,
            currentColor := Some (resolveColor c chosenColor),
            status := Finished, winner := Some i\<rparr>\<rparr>)"
    by (simp add: playCardAccepted_def placeCard_def Let_def)
  with rng h(3) ii show ?thesis
    by (simp add: clearTurnTimer_def)
qed

theorem playCard_last_card_wins_witness:
  "status (gameState (snd (playCard ''s0'' 0 None id 9000 lastCardTable))) = Finished
   \<and> winner (gameState (snd (playCard ''s0'' 0 None id 9000 lastCardTable))) = Some 0
   \<and> turnExpiresAt (snd (playCard ''s0'' 0 None id 9000 lastCardTable)) = None"
proof -
  have "\<exists>r g'. playCard ''s0'' 0 None id 9000 lastCardTable = (Inr r, g') \<and> success r"
    by (simp add: playCard_def playCardAccepted_def placeCard_def lastCardTable_def table_def seat_def
        findIndex_def red5_def red7_def Let_def succeeded_def)
  then obtain r g' where e: "playCard ''s0'' 0 None id 9000 lastCardTable = (Inr r, g')" "success r"
    by blast
  have f: "findIndex (\<lambda>p. pid p = ''s0'') (players (gameState lastCardTable)) = 0"
    by (simp add: lastCardTable_def table_def seat_def findIndex_def)
  have l: "length (hand (players (gameState lastCardTable) ! nat 0)) = 1"
    by (simp add: lastCardTable_def table_def seat_def)
  from playCard_last_card_wins [OF e f l] e show ?thesis by simp
qed

lemma placeCard_fields:
  "length (players (placeCard i k c ch gs)) = length (players gs)"
  "currentPlayerIndex (placeCard i k c ch gs) = currentPlayerIndex gs"
  "direction (placeCard i k c ch gs) = direction gs"
  "hasPlayedCardThisTurn (placeCard i k c ch gs)"
  "deck (placeCard i k c ch gs) = deck gs"
  "status (placeCard i k c ch gs) = status gs"
  "waitingForUno (placeCard i k c ch gs) = waitingForUno gs"
  by (simp_all add: placeCard_def Let_def)

lemma jsmod_two_steps:
  assumes "d = 1 \<or> d = -1" "i = 0 \<or> i = 1"
  shows "jsmod (jsadd (jsadd (jsmod (jsadd (jsadd (Num i) d) 2) 2) d) 2) 2 = Num i"
  using assms by (auto simp add: jsmod_def jsadd_def)

lemma nextTurn_twice_two_seats:
  assumes "length (players gs) = 2" "direction gs = 1 \<or> direction gs = -1"
    "currentPlayerIndex gs = Num i" "i = 0 \<or> i = 1"
  shows "currentPlayerIndex (nextTurn (nextTurn gs)) = Num i"
  using assms jsmod_two_steps [of "direction gs" i]
  by (simp add: nextTurn_def)

text \<open>
  C9. With exactly two seats, a successful \<open>playCard\<close> of a skip or of a reverse leaves
  \<open>currentPlayerIndex\<close> on the seat that played: both cards keep the turn.
\<close>

theorem two_seats_skip_reverse_keep_turn:
  assumes "playCard playerId cardIndex chosenColor pick now g = (Inr r, g')" and "success r"
    and "length (players (gameState g)) = 2"
    and "direction (gameState g) = 1 \<or> direction (gameState g) = -1"
    and "findIndex (\<lambda>p. pid p = playerId) (players (gameState g)) = i"
    and "hand (players (gameState g) ! nat i) ! nat cardIndex = Some c"
    and "val c = Skip \<or> val c = Reverse"
  shows "currentPlayerIndex (gameState g') = Num i
         \<and> currentPlayerIndex (gameState g') = currentPlayerIndex (gameState g)"
proof -
  from assms(1,2) obtain i' c' where
    h: "findIndex (\<lambda>p. pid p = playerId) (players (gameState g)) = i'" "i' \<noteq> -1"
       "Num i' = currentPlayerIndex (gameState g)"
       "hand (players (gameState g) ! nat i') ! nat cardIndex = Some c'"
       "playCardAccepted i' (nat cardIndex) c' chosenColor pick now g = (Inr r, g')"
    by (rule playCard_success_cases)
  from h(1) assms(5) have ii: "i' = i" by simp
  with h(4) assms(6) have cc: "c' = c" by simp
  from findIndex_range [OF h(1) h(2)] ii assms(3) have rng: "i = 0 \<or> i = 1" by auto
  define gs1 where "gs1 = placeCard i (nat cardIndex) c chosenColor (gameState g)"
  have act: "isActionValue (val c)" using assms(7) by (auto simp add: isActionValue_def)
  have len: "length (players gs1) = 2" using assms(3) by (simp add: gs1_def placeCard_fields)
  have cpi1: "currentPlayerIndex gs1 = Num i" using h(3) ii by (simp add: gs1_def placeCard_fields)
  have dir1: "direction gs1 = direction (gameState g)" by (simp add: gs1_def placeCard_fields)
  have acc: "playCardAccepted i (nat cardIndex) c chosenColor pick now g = (Inr r, g')"
    using h(5) ii cc by simp
  have "playCardAccepted i (nat cardIndex) c chosenColor pick now g =
          (if length (hand (players gs1 ! nat i)) = 0
           then (let g2 = clearTurnTimer (g\<lparr>gameState := gs1\<lparr>status := Finished, winner := Some i\<rparr>\<rparr>)
                 in (Inr (succeeded ''Player wins!'' g2), g2))
           else playCardAdvance c pick now (g\<lparr>gameState := gs1\<rparr>))"
    using act len by (simp add: playCardAccepted_def gs1_def Let_def)
  with acc
  consider (win) "g' = clearTurnTimer (g\<lparr>gameState := gs1\<lparr>status := Finished, winner := Some i\<rparr>\<rparr>)"
    | (adv) "playCardAdvance c pick now (g\<lparr>gameState := gs1\<rparr>) = (Inr r, g')"
    by (auto simp add: Let_def split: if_splits)
  then show ?thesis
  proof cases
    case win
    with cpi1 h(3) ii show ?thesis by (simp add: clearTurnTimer_def)
  next
    case adv
    show ?thesis
    proof (cases "val c = Skip")
      case True
      let ?gs3 = "gs1\<lparr>hasDrawnPlayableCard := False\<rparr>"
      from adv True have "gameState g' = nextTurn (nextTurn ?gs3)"
        by (auto simp add: playCardAdvance_def Let_def clearTurnTimer_def deferStart_def)
      moreover have "currentPlayerIndex (nextTurn (nextTurn ?gs3)) = Num i"
        using len cpi1 dir1 assms(4) rng
        by (intro nextTurn_twice_two_seats) simp_all
      ultimately show ?thesis using h(3) ii by simp
    next
      case False
      with assms(7) have rv: "val c = Reverse" by simp
      let ?gs3 = "gs1\<lparr>direction := direction gs1 * (-1), hasDrawnPlayableCard := False\<rparr>"
      from adv rv len have "gameState g' = nextTurn (nextTurn ?gs3)"
        by (auto simp add: playCardAdvance_def Let_def clearTurnTimer_def deferStart_def)
      moreover have "currentPlayerIndex (nextTurn (nextTurn ?gs3)) = Num i"
        using len cpi1 dir1 assms(4) rng
        by (intro nextTurn_twice_two_seats) auto
      ultimately show ?thesis using h(3) ii by simp
    qed
  qed
qed

theorem two_seats_skip_reverse_keep_turn_witness:
  "currentPlayerIndex (gameState (snd (playCard ''s0'' 0 None id 9000 reverseTable))) = Num 0
   \<and> currentPlayerIndex (gameState reverseTable) = Num 0"
proof -
  have "\<exists>r g'. playCard ''s0'' 0 None id 9000 reverseTable = (Inr r, g') \<and> success r"
    by (simp add: playCard_def playCardAccepted_def placeCard_def playCardAdvance_def
        reverseTable_def table_def seat_def reverseCard_def isActionValue_def
        findIndex_def red7_def Let_def succeeded_def)
  then obtain r g' where e: "playCard ''s0'' 0 None id 9000 reverseTable = (Inr r, g')" "success r"
    by blast
  have l: "length (players (gameState reverseTable)) = 2"
    and d: "direction (gameState reverseTable) = 1 \<or> direction (gameState reverseTable) = -1"
    and f: "findIndex (\<lambda>p. pid p = ''s0'') (players (gameState reverseTable)) = 0"
    and h: "hand (players (gameState reverseTable) ! nat 0) ! nat 0 = Some reverseCard"
    and v: "val reverseCard = Skip \<or> val reverseCard = Reverse"
    by (simp_all add: reverseTable_def table_def seat_def findIndex_def reverseCard_def)
  from two_seats_skip_reverse_keep_turn [OF e l d f h v] e show ?thesis by (simp, metis)
qed

section \<open>Public snapshots\<close>

lemma publicPlayerOf_hidden:
  assumes "s \<noteq> []" "sameButHiddenHands s p q"
  shows "publicPlayerOf (Some s) q = publicPlayerOf (Some s) p"
proof (cases "q = p")
  case True
  then show ?thesis by simp
next
  case False
  with assms(2) have h: "pid p \<noteq> s" "length (hand q) = length (hand p)" "q = p\<lparr>hand := hand q\<rparr>"
    by (auto simp add: sameButHiddenHands_def)
  from h(3) have "pid q = pid (p\<lparr>hand := hand q\<rparr>)" "name q = name (p\<lparr>hand := hand q\<rparr>)"
     "hasUno q = hasUno (p\<lparr>hand := hand q\<rparr>)" by simp_all
  then have "pid q = pid p" "name q = name p" "hasUno q = hasUno p" by simp_all
  with h(1,2) assms(1) show ?thesis by (simp add: publicPlayerOf_def)
qed

lemma map_publicPlayerOf_hidden:
  assumes "s \<noteq> []" "list_all2 (sameButHiddenHands s) ps qs"
  shows "map (publicPlayerOf (Some s)) qs = map (publicPlayerOf (Some s)) ps"
  using assms(2)
  by (induction rule: list_all2_induct) (simp_all add: publicPlayerOf_hidden [OF assms(1)])

text \<open>
  C8 (as amended). For a non-empty \<open>seatId\<close>, the snapshot gives every seat with another
  id an empty hand and its hand size, and two games that differ only in the contents
  (not the sizes) of such hands have the same snapshot. With \<open>seatId\<close> omitted
  the snapshot carries every hand in full.
\<close>

theorem getPublicState_redacts_other_seats:
  assumes "s \<noteq> []"
  shows "(\<forall>q \<in> set (ps_players (getPublicState (Some s) g)). pp_id q \<noteq> s \<longrightarrow> pp_hand q = [])
       \<and> map pp_handSize (ps_players (getPublicState (Some s) g))
           = map (\<lambda>p. length (hand p)) (players (gameState g))
       \<and> (list_all2 (sameButHiddenHands s) (players (gameState g)) qs \<longrightarrow>
            getPublicState (Some s) (g\<lparr>gameState := (gameState g)\<lparr>players := qs\<rparr>\<rparr>)
              = getPublicState (Some s) g)
       \<and> map pp_hand (ps_players (getPublicState None g)) = map hand (players (gameState g))"
proof (intro conjI impI)
  show "\<forall>q \<in> set (ps_players (getPublicState (Some s) g)). pp_id q \<noteq> s \<longrightarrow> pp_hand q = []"
    using assms by (auto simp add: getPublicState_def Let_def publicPlayerOf_def)
  show "map pp_handSize (ps_players (getPublicState (Some s) g))
           = map (\<lambda>p. length (hand p)) (players (gameState g))"
    by (simp add: getPublicState_def Let_def publicPlayerOf_def)
  show "map pp_hand (ps_players (getPublicState None g)) = map hand (players (gameState g))"
    by (simp add: getPublicState_def Let_def publicPlayerOf_def)
next
  assume "list_all2 (sameButHiddenHands s) (players (gameState g)) qs"
  from map_publicPlayerOf_hidden [OF assms this]
  show "getPublicState (Some s) (g\<lparr>gameState := (gameState g)\<lparr>players := qs\<rparr>\<rparr>)
              = getPublicState (Some s) g"
    by (simp add: getPublicState_def Let_def)
qed

theorem getPublicState_redacts_other_seats_witness:
  "''s0'' \<noteq> []
   \<and> list_all2 (sameButHiddenHands ''s0'') (players (gameState duel)) (players (gameState duelOtherHand))
   \<and> getPublicState (Some ''s0'') duelOtherHand = getPublicState (Some ''s0'') duel
   \<and> map pp_hand (ps_players (getPublicState (Some ''s0'') duel)) = [[Some red5, Some blue3], []]
   \<and> map pp_handSize (ps_players (getPublicState (Some ''s0'') duel)) = [2, 2]"
proof -
  have n: "''s0'' \<noteq> []" by simp
  have l: "list_all2 (sameButHiddenHands ''s0'') (players (gameState duel)) (players (gameState duelOtherHand))"
    by (simp add: duel_def duelOtherHand_def table_def seat_def sameButHiddenHands_def)
  have e: "duelOtherHand = duel\<lparr>gameState := (gameState duel)\<lparr>players := players (gameState duelOtherHand)\<rparr>\<rparr>"
    by (simp add: duelOtherHand_def)
  have m: "map pp_hand (ps_players (getPublicState (Some ''s0'') duel)) = [[Some red5, Some blue3], []]"
    by (simp add: getPublicState_def publicPlayerOf_def duel_def table_def seat_def)
  have z: "map (\<lambda>p. length (hand p)) (players (gameState duel)) = [2, 2]"
    by (simp add: duel_def table_def seat_def)
  from getPublicState_redacts_other_seats [OF n, of duel "players (gameState duelOtherHand)"] l e n m z
  show ?thesis by simp
qed

text \<open>
  C8 as stated fails when \<open>seatId\<close> is omitted: two games that differ only in the
  contents of the hand of seat 1 have different snapshots, and the snapshot shows the
  cards of both seats.
\<close>

theorem getPublicState_omitted_counterexample:
  "list_all2 (sameButHiddenHands ''s0'') (players (gameState duel)) (players (gameState duelOtherHand))
   \<and> getPublicState None duelOtherHand \<noteq> getPublicState None duel
   \<and> map pp_hand (ps_players (getPublicState None duel))
       = [[Some red5, Some blue3], [Some green1, Some blue3]]"
  by (simp add: getPublicState_def publicPlayerOf_def duel_def duelOtherHand_def table_def seat_def
      sameButHiddenHands_def red5_def red7_def blue3_def green1_def)

section \<open>The loop over disconnected seats\<close>

lemma sameTable_refl: "sameTable g g"
  by (simp add: sameTable_def)

lemma sameTable_clear: "sameTable g (clearTurnTimer g)"
  by (simp add: sameTable_def clearTurnTimer_def)

lemma sameTable_step:
  "sameTable (g\<lparr>gameState := (gameState g)\<lparr>currentPlayerIndex := x\<rparr>\<rparr>) g' \<Longrightarrow> sameTable g g'"
  by (simp add: sameTable_def)

lemma skipDisconnected_sameTable:
  assumes "skipDisconnected orig g = Some y"
  shows "sameTable g (snd y)"
proof (rule skipDisconnected.raw_induct [where P = "\<lambda>orig g y. sameTable g (snd y)", OF _ assms])
  fix f :: "jsnum \<Rightarrow> game \<Rightarrow> ((jserror + bool) \<times> game) option" and orig g y
  assume ih: "\<And>orig g y. f orig g = Some y \<Longrightarrow> sameTable g (snd y)"
    and body: "(case playerAt (players (gameState g)) (currentPlayerIndex (gameState g)) of
        None \<Rightarrow> Some (Inl TypeError, g)
      | Some p \<Rightarrow>
          if disconnected p then
            (if jsStrictEq (advanceIndex (gameState g)) orig
             then Some (Inr True, clearTurnTimer g)
             else f orig
                    (g\<lparr>gameState := (gameState g)\<lparr>currentPlayerIndex := advanceIndex (gameState g)\<rparr>\<rparr>))
          else Some (Inr False, g)) = Some y"
  from body show "sameTable g (snd y)"
    by (auto simp add: sameTable_refl sameTable_clear split: option.splits if_splits
        dest!: ih sameTable_step)
qed

lemma dist_step:
  fixes d n c :: int
  assumes "d = 1 \<or> d = -1" "0 < n" "(d * (c0 - c)) mod n = int (Suc k)"
  shows "(d * (c0 - (c + d) mod n)) mod n = int k"
proof -
  have lt: "int (Suc k) < n" using assms(2,3) pos_mod_bound [of n "d * (c0 - c)"] by simp
  have dd: "d * d = 1" using assms(1) by auto
  have "(d * (c0 - (c + d) mod n)) mod n = (d * ((c0 - (c + d) mod n) mod n)) mod n"
    by (simp add: mod_mult_right_eq)
  also have "(c0 - (c + d) mod n) mod n = (c0 - (c + d)) mod n"
    by (simp add: mod_diff_right_eq)
  also have "(d * ((c0 - (c + d)) mod n)) mod n = (d * (c0 - (c + d))) mod n"
    by (simp add: mod_mult_right_eq)
  also have "d * (c0 - (c + d)) = d * (c0 - c) - 1"
    using dd by (simp add: algebra_simps)
  also have "(d * (c0 - c) - 1) mod n = ((d * (c0 - c)) mod n - 1) mod n"
    by (simp add: mod_diff_left_eq)
  also have "\<dots> = int k mod n" using assms(3) by simp
  also have "\<dots> = int k" using lt by simp
  finally show ?thesis .
qed

lemma small_mod_zero:
  fixes x n :: int
  assumes "- n < x" "x < n" "x mod n = 0"
  shows "x = 0"
proof (cases "0 \<le> x")
  case True
  with assms(2) have "x mod n = x" by simp
  with assms(3) show ?thesis by simp
next
  case False
  with assms(1) have "0 \<le> x + n" "x + n < n" by simp_all
  then have "(x + n) mod n = x + n" by (rule mod_pos_pos_trivial)
  moreover have "(x + n) mod n = x mod n" by simp
  ultimately show ?thesis using assms(1,3) by simp
qed

lemma dist_zero:
  fixes d n c :: int
  assumes "d = 1 \<or> d = -1" "0 \<le> c" "c < n" "0 \<le> c0" "c0 < n" "(d * (c0 - c)) mod n = 0"
  shows "c = c0"
proof -
  have "- n < d * (c0 - c)" "d * (c0 - c) < n" using assms(1-5) by auto
  from small_mod_zero [OF this assms(6)] assms(1) show ?thesis by auto
qed

lemma advanceIndex_in_range:
  assumes "currentPlayerIndex gs = Num c" "0 \<le> c" "c < int (length (players gs))"
    and "direction gs = 1 \<or> direction gs = -1"
  shows "advanceIndex gs = Num ((c + direction gs) mod int (length (players gs)))"
proof -
  let ?n = "int (length (players gs))"
  let ?x = "c + direction gs + ?n"
  have n: "0 < ?n" using assms(2,3) by linarith
  have x: "0 \<le> ?x" using assms by auto
  have "sgn ?x * (\<bar>?x\<bar> mod \<bar>?n\<bar>) = ?x mod ?n"
  proof (cases "?x = 0")
    case True
    then show ?thesis by simp
  next
    case False
    with x have "sgn ?x = 1" by simp
    with x show ?thesis by simp
  qed
  also have "?x mod ?n = (c + direction gs) mod ?n" by simp
  finally show ?thesis using assms(1) n
    by (simp add: advanceIndex_def jsmod_def jsadd_def)
qed

lemma skipDisconnected_returns:
  assumes "direction (gameState g) = 1 \<or> direction (gameState g) = -1"
    and "currentPlayerIndex (gameState g) = Num c" "0 \<le> c" "c < int (length (players (gameState g)))"
    and "0 \<le> c0" "c0 < int (length (players (gameState g)))"
    and "nat ((direction (gameState g) * (c0 - c)) mod int (length (players (gameState g)))) = k"
    and "1 \<le> k \<or> length (players (gameState g)) = 1"
  shows "\<exists>paused g'. skipDisconnected (Num c0) g = Some (Inr paused, g')"
  using assms
proof (induction k arbitrary: g c)
  case 0
  then have n1: "length (players (gameState g)) = 1" by simp
  with 0 have c: "c = 0" "c0 = 0" by auto
  have adv: "advanceIndex (gameState g) = Num 0"
    using advanceIndex_in_range [OF "0.prems"(2,3,4,1)] n1 by simp
  show ?case
    using "0.prems"(2) n1 c adv
    by (subst skipDisconnected.simps) (auto simp add: playerAt_def jsStrictEq_def)
next
  case (Suc k)
  let ?n = "int (length (players (gameState g)))"
  let ?d = "direction (gameState g)"
  let ?c' = "(c + ?d) mod ?n"
  have n: "0 < ?n" using Suc.prems(3,4) by linarith
  have adv: "advanceIndex (gameState g) = Num ?c'"
    using advanceIndex_in_range [OF Suc.prems(2,3,4,1)] .
  have pa: "playerAt (players (gameState g)) (currentPlayerIndex (gameState g))
              = Some (players (gameState g) ! nat c)"
    using Suc.prems(2,3,4) by (simp add: playerAt_def)
  show ?case
  proof (cases "disconnected (players (gameState g) ! nat c) \<and> ?c' \<noteq> c0")
    case False
    then show ?thesis using pa adv
      by (subst skipDisconnected.simps) (auto simp add: jsStrictEq_def)
  next
    case True
    let ?g1 = "g\<lparr>gameState := (gameState g)\<lparr>currentPlayerIndex := Num ?c'\<rparr>\<rparr>"
    have dm: "(?d * (c0 - c)) mod ?n = int (Suc k)"
      using Suc.prems(7) n by (metis int_nat_eq pos_mod_sign)
    have d1: "(?d * (c0 - ?c')) mod ?n = int k"
      using dist_step [OF Suc.prems(1) n dm] .
    have c'r: "0 \<le> ?c'" "?c' < ?n" using n by simp_all
    have k1: "1 \<le> k \<or> length (players (gameState g)) = 1"
    proof (cases k)
      case 0
      with d1 have "(?d * (c0 - ?c')) mod ?n = 0" by simp
      from dist_zero [OF Suc.prems(1) c'r Suc.prems(5,6) this] True show ?thesis by simp
    next
      case (Suc m)
      then show ?thesis by simp
    qed
    have "\<exists>paused g'. skipDisconnected (Num c0) ?g1 = Some (Inr paused, g')"
      using Suc.prems(1,5,6) c'r d1 k1
      by (intro Suc.IH [where c = ?c']) simp_all
    moreover have "skipDisconnected (Num c0) g = skipDisconnected (Num c0) ?g1"
      using pa adv True
      by (subst skipDisconnected.simps) (simp add: jsStrictEq_def)
    ultimately show ?thesis by simp
  qed
qed

section \<open>Turn timeout\<close>

lemma reshuffleDeck_fields:
  "players (reshuffleDeck pick gs) = players gs"
  "currentPlayerIndex (reshuffleDeck pick gs) = currentPlayerIndex gs"
  "direction (reshuffleDeck pick gs) = direction gs"
  "status (reshuffleDeck pick gs) = status gs"
  "waitingForUno (reshuffleDeck pick gs) = waitingForUno gs"
  "hasDrawnPlayableCard (reshuffleDeck pick gs) = hasDrawnPlayableCard gs"
  "hasPlayedCardThisTurn (reshuffleDeck pick gs) = hasPlayedCardThisTurn gs"
  by (simp_all add: reshuffleDeck_def)

lemma drawInto_fields:
  "currentPlayerIndex (drawInto pick i gs) = currentPlayerIndex gs"
  "direction (drawInto pick i gs) = direction gs"
  "status (drawInto pick i gs) = status gs"
  "waitingForUno (drawInto pick i gs) = waitingForUno gs"
  "hasDrawnPlayableCard (drawInto pick i gs) = hasDrawnPlayableCard gs"
  "hasPlayedCardThisTurn (drawInto pick i gs) = hasPlayedCardThisTurn gs"
  "length (players (drawInto pick i gs)) = length (players gs)"
  by (simp_all add: drawInto_def Let_def reshuffleDeck_fields split: prod.splits)

lemma drawInto_players_entry:
  "players (drawInto pick i gs)
     = (players gs)[i := (players gs ! i)\<lparr>hand := hand (players gs ! i) @ [drawnEntry pick gs]\<rparr>]"
  by (simp add: drawInto_def drawnEntry_def Let_def reshuffleDeck_fields split: prod.splits)

lemma drawInto_players:
  "\<exists>e. players (drawInto pick i gs)
         = (players gs)[i := (players gs ! i)\<lparr>hand := hand (players gs ! i) @ [e]\<rparr>]"
  using drawInto_players_entry by blast

lemma drawN_fields:
  "currentPlayerIndex (drawN pick i k gs) = currentPlayerIndex gs"
  "direction (drawN pick i k gs) = direction gs"
  "status (drawN pick i k gs) = status gs"
  "waitingForUno (drawN pick i k gs) = waitingForUno gs"
  "hasDrawnPlayableCard (drawN pick i k gs) = hasDrawnPlayableCard gs"
  "hasPlayedCardThisTurn (drawN pick i k gs) = hasPlayedCardThisTurn gs"
  "length (players (drawN pick i k gs)) = length (players gs)"
  by (induction k arbitrary: gs; simp add: drawInto_fields)+

lemma drawN_players:
  assumes "i < length (players gs)"
  shows "\<exists>es. length es = k \<and> players (drawN pick i k gs)
         = (players gs)[i := (players gs ! i)\<lparr>hand := hand (players gs ! i) @ es\<rparr>]"
  using assms
proof (induction k arbitrary: gs)
  case 0
  then show ?case by simp
next
  case (Suc k)
  obtain e where e: "players (drawInto pick i gs)
         = (players gs)[i := (players gs ! i)\<lparr>hand := hand (players gs ! i) @ [e]\<rparr>]"
    using drawInto_players by blast
  have "i < length (players (drawInto pick i gs))" using Suc.prems by (simp add: drawInto_fields)
  from Suc.IH [OF this] obtain es where es: "length es = k"
    "players (drawN pick i k (drawInto pick i gs))
       = (players (drawInto pick i gs))[i := (players (drawInto pick i gs) ! i)
           \<lparr>hand := hand (players (drawInto pick i gs) ! i) @ es\<rparr>]"
    by blast
  from es e Suc.prems have "length (e # es) = Suc k \<and> players (drawN pick i (Suc k) gs)
         = (players gs)[i := (players gs ! i)\<lparr>hand := hand (players gs ! i) @ (e # es)\<rparr>]"
    by simp
  then show ?case by blast
qed

lemma timeoutPenalty_fields:
  "currentPlayerIndex (timeoutPenalty pick i gs) = currentPlayerIndex gs"
  "direction (timeoutPenalty pick i gs) = direction gs"
  "status (timeoutPenalty pick i gs) = status gs"
  "length (players (timeoutPenalty pick i gs)) = length (players gs)"
  by (simp_all add: timeoutPenalty_def Let_def drawInto_fields drawN_fields)

lemma timeoutPenalty_players:
  assumes "i < length (players gs)"
  shows "\<exists>es u. length es = penaltySize gs i \<and> players (timeoutPenalty pick i gs)
         = (players gs)[i := (players gs ! i)\<lparr>hand := hand (players gs ! i) @ es, hasUno := u\<rparr>]"
proof -
  consider (a) "waitingForUno gs \<and> length (hand (players gs ! i)) = 1 \<and> \<not> hasUno (players gs ! i)"
    | (b) "\<not> (waitingForUno gs \<and> length (hand (players gs ! i)) = 1 \<and> \<not> hasUno (players gs ! i))"
          "hasDrawnPlayableCard gs"
    | (c) "\<not> (waitingForUno gs \<and> length (hand (players gs ! i)) = 1 \<and> \<not> hasUno (players gs ! i))"
          "\<not> hasDrawnPlayableCard gs"
    by blast
  then show ?thesis
  proof cases
    case a
    from drawN_players [OF assms, of 2 pick] obtain es where es: "length es = 2"
      "players (drawN pick i 2 gs) = (players gs)[i := (players gs ! i)\<lparr>hand := hand (players gs ! i) @ es\<rparr>]"
      by blast
    with a assms have "length es = penaltySize gs i \<and> players (timeoutPenalty pick i gs)
         = (players gs)[i := (players gs ! i)\<lparr>hand := hand (players gs ! i) @ es, hasUno := False\<rparr>]"
      by (simp add: timeoutPenalty_def Let_def penaltySize_def)
    then show ?thesis by blast
  next
    case b
    then have "timeoutPenalty pick i gs = gs\<lparr>hasDrawnPlayableCard := False\<rparr>"
      by (auto simp add: timeoutPenalty_def Let_def)
    moreover from b have "penaltySize gs i = 0" by (auto simp add: penaltySize_def)
    ultimately have "length ([] :: card option list) = penaltySize gs i \<and> players (timeoutPenalty pick i gs)
         = (players gs)[i := (players gs ! i)\<lparr>hand := hand (players gs ! i) @ [],
               hasUno := hasUno (players gs ! i)\<rparr>]"
      by simp
    then show ?thesis by blast
  next
    case c
    obtain e where e: "players (drawInto pick i gs)
         = (players gs)[i := (players gs ! i)\<lparr>hand := hand (players gs ! i) @ [e]\<rparr>]"
      using drawInto_players by blast
    from c have tp: "timeoutPenalty pick i gs =
        (drawInto pick i gs)\<lparr>players := (players (drawInto pick i gs))[i :=
            (if length (hand (players (drawInto pick i gs) ! i)) > 1
             then (players (drawInto pick i gs) ! i)\<lparr>hasUno := False\<rparr>
             else players (drawInto pick i gs) ! i)],
          waitingForUno := False\<rparr>"
      by (auto simp add: timeoutPenalty_def Let_def)
    from c have ps: "penaltySize gs i = 1" by (auto simp add: penaltySize_def)
    from tp e assms ps have "length [e] = penaltySize gs i \<and> players (timeoutPenalty pick i gs)
         = (players gs)[i := (players gs ! i)\<lparr>hand := hand (players gs ! i) @ [e],
               hasUno := (if length (hand (players gs ! i) @ [e]) > 1 then False else hasUno (players gs ! i))\<rparr>]"
      by simp
    then show ?thesis by blast
  qed
qed

lemma nextTurn_fields:
  "players (nextTurn gs) = map (\<lambda>p. p\<lparr>hasUno := False\<rparr>) (players gs)"
  "currentPlayerIndex (nextTurn gs) = advanceIndex gs"
  "direction (nextTurn gs) = direction gs"
  "status (nextTurn gs) = status gs"
  "deck (nextTurn gs) = deck gs"
  "discardPile (nextTurn gs) = discardPile gs"
  "\<not> waitingForUno (nextTurn gs)"
  "\<not> hasDrawnPlayableCard (nextTurn gs)"
  "\<not> hasPlayedCardThisTurn (nextTurn gs)"
  by (simp_all add: nextTurn_def advanceIndex_def)

lemma handleTurnTimeout_returns:
  assumes "status (gameState g) = Playing" "turnExpiresAt g \<noteq> None"
    and "currentPlayerIndex (gameState g) = Num c" "0 \<le> c" "c < int (length (players (gameState g)))"
    and "direction (gameState g) = 1 \<or> direction (gameState g) = -1"
  shows "\<exists>paused g1. skipDisconnected (Num c) (afterPenalty pick g) = Some (Inr paused, g1)
           \<and> handleTurnTimeout pick now g
               = Some (Inr (), if paused then g1 else startTurnTimer now g1)"
proof -
  let ?n = "int (length (players (gameState g)))"
  let ?d = "direction (gameState g)"
  let ?g2 = "afterPenalty pick g"
  let ?c' = "(c + ?d) mod ?n"
  have n: "0 < ?n" using assms(4,5) by linarith
  let ?gs1 = "(timeoutPenalty pick (nat c) (gameState g))\<lparr>hasDrawnPlayableCard := False\<rparr>"
  have gs2: "gameState ?g2 = nextTurn ?gs1"
    using assms(3) by (simp add: afterPenalty_def indexOf_def)
  have adv: "advanceIndex ?gs1 = Num ?c'"
    using advanceIndex_in_range [of ?gs1 c] assms(3-6) by (simp add: timeoutPenalty_fields)
  have f: "direction (gameState ?g2) = ?d" "length (players (gameState ?g2)) = length (players (gameState g))"
    "currentPlayerIndex (gameState ?g2) = Num ?c'"
    using adv by (simp_all add: gs2 nextTurn_fields timeoutPenalty_fields)
  have "(?d * (c - ?c')) mod ?n = (?d * ((c - ?c') mod ?n)) mod ?n"
    by (simp add: mod_mult_right_eq)
  also have "(c - ?c') mod ?n = (c - (c + ?d)) mod ?n" by (simp add: mod_diff_right_eq)
  also have "(?d * ((c - (c + ?d)) mod ?n)) mod ?n = (?d * (c - (c + ?d))) mod ?n"
    by (simp add: mod_mult_right_eq)
  also have "?d * (c - (c + ?d)) = -1" using assms(6) by auto
  also have "(-1) mod ?n = ?n - 1" using n by (simp add: zmod_minus1)
  finally have dist: "(?d * (c - ?c')) mod ?n = ?n - 1" .
  have k: "1 \<le> nat (?n - 1) \<or> length (players (gameState g)) = 1" using n by linarith
  have "\<exists>paused g1. skipDisconnected (Num c) ?g2 = Some (Inr paused, g1)"
    using assms(4,5,6) n f dist k
    by (intro skipDisconnected_returns [where c = ?c' and k = "nat (?n - 1)"]) simp_all
  then obtain paused g1 where sk: "skipDisconnected (Num c) ?g2 = Some (Inr paused, g1)" by blast
  have pa: "playerAt (players (gameState g)) (Num c) = Some (players (gameState g) ! nat c)"
    using assms(4,5) by (simp add: playerAt_def)
  have "handleTurnTimeout pick now g = Some (Inr (), if paused then g1 else startTurnTimer now g1)"
    using assms(1,2,3) pa sk
    by (auto simp add: handleTurnTimeout_def Let_def afterPenalty_def)
  with sk show ?thesis by blast
qed

lemma handleTurnTimeout_players:
  assumes "status (gameState g) = Playing" "turnExpiresAt g \<noteq> None"
    and "currentPlayerIndex (gameState g) = Num c" "0 \<le> c" "c < int (length (players (gameState g)))"
    and "direction (gameState g) = 1 \<or> direction (gameState g) = -1"
  shows "\<exists>g'. handleTurnTimeout pick now g = Some (Inr (), g')
           \<and> players (gameState g')
               = map (\<lambda>p. p\<lparr>hasUno := False\<rparr>) (players (timeoutPenalty pick (nat c) (gameState g)))
           \<and> \<not> waitingForUno (gameState g') \<and> \<not> hasDrawnPlayableCard (gameState g')
           \<and> \<not> hasPlayedCardThisTurn (gameState g')"
proof -
  from handleTurnTimeout_returns [OF assms, of pick now] obtain paused g1 where
    sk: "skipDisconnected (Num c) (afterPenalty pick g) = Some (Inr paused, g1)"
    and h: "handleTurnTimeout pick now g = Some (Inr (), if paused then g1 else startTurnTimer now g1)"
    by blast
  from skipDisconnected_sameTable [OF sk] have
    "gameState g1 = (gameState (afterPenalty pick g))\<lparr>currentPlayerIndex := currentPlayerIndex (gameState g1)\<rparr>"
    by (simp add: sameTable_def)
  then have g1: "players (gameState g1) = players (gameState (afterPenalty pick g))"
    "waitingForUno (gameState g1) = waitingForUno (gameState (afterPenalty pick g))"
    "hasDrawnPlayableCard (gameState g1) = hasDrawnPlayableCard (gameState (afterPenalty pick g))"
    "hasPlayedCardThisTurn (gameState g1) = hasPlayedCardThisTurn (gameState (afterPenalty pick g))"
    by (metis gameState.select_convs gameState.surjective gameState.update_convs(5))+
  have st: "gameState (startTurnTimer now g1) = gameState g1"
    by (simp add: startTurnTimer_def startTurnTimerWithDuration_def clearTurnTimer_def Let_def
        split: option.splits)
  have ap: "gameState (afterPenalty pick g)
      = nextTurn ((timeoutPenalty pick (nat c) (gameState g))\<lparr>hasDrawnPlayableCard := False\<rparr>)"
    using assms(3) by (simp add: afterPenalty_def indexOf_def)
  show ?thesis using h g1 st ap by (simp add: nextTurn_fields)
qed

text \<open>
  The size of the hand array after a timeout that passes the race guard (playing state,
  deadline not cleared) on a valid turn index: the call returns and changes the hand of
  the timed-out seat only, by appending two entries when the seat was waiting to call UNO
  with one card and had not called (and the requirement is cleared), none when it was
  deciding on a drawn card, one otherwise. What the entries are is settled further
  below: cards of the deck while the deck holds enough of them, \<open>undefined\<close> once deck
  and discard pile are exhausted.
\<close>

theorem timeout_penalty_by_substate:
  assumes "status (gameState g) = Playing" and "turnExpiresAt g \<noteq> None"
    and "currentPlayerIndex (gameState g) = Num c" and "0 \<le> c"
    and "c < int (length (players (gameState g)))"
    and "direction (gameState g) = 1 \<or> direction (gameState g) = -1"
  shows "\<exists>g'. handleTurnTimeout pick now g = Some (Inr (), g')
     \<and> (waitingForUno (gameState g) \<and> length (hand (players (gameState g) ! nat c)) = 1
          \<and> \<not> hasUno (players (gameState g) ! nat c)
        \<longrightarrow> length (hand (players (gameState g') ! nat c))
              = length (hand (players (gameState g) ! nat c)) + 2
            \<and> \<not> waitingForUno (gameState g'))
     \<and> (\<not> (waitingForUno (gameState g) \<and> length (hand (players (gameState g) ! nat c)) = 1
              \<and> \<not> hasUno (players (gameState g) ! nat c))
          \<and> hasDrawnPlayableCard (gameState g)
        \<longrightarrow> hand (players (gameState g') ! nat c) = hand (players (gameState g) ! nat c))
     \<and> (\<not> (waitingForUno (gameState g) \<and> length (hand (players (gameState g) ! nat c)) = 1
              \<and> \<not> hasUno (players (gameState g) ! nat c))
          \<and> \<not> hasDrawnPlayableCard (gameState g)
        \<longrightarrow> length (hand (players (gameState g') ! nat c))
              = length (hand (players (gameState g) ! nat c)) + 1)
     \<and> take (length (hand (players (gameState g) ! nat c))) (hand (players (gameState g') ! nat c))
          = hand (players (gameState g) ! nat c)
     \<and> (\<forall>j < length (players (gameState g)). j \<noteq> nat c \<longrightarrow>
           hand (players (gameState g') ! j) = hand (players (gameState g) ! j))"
proof -
  let ?ps = "players (gameState g)"
  have i: "nat c < length ?ps" using assms(4,5) by linarith
  from handleTurnTimeout_players [OF assms, of pick now] obtain g' where
    h: "handleTurnTimeout pick now g = Some (Inr (), g')"
    and ps: "players (gameState g')
               = map (\<lambda>p. p\<lparr>hasUno := False\<rparr>) (players (timeoutPenalty pick (nat c) (gameState g)))"
    and w: "\<not> waitingForUno (gameState g')"
    by blast
  from timeoutPenalty_players [OF i, of pick] obtain es u where
    es: "length es = penaltySize (gameState g) (nat c)"
    and tp: "players (timeoutPenalty pick (nat c) (gameState g))
         = ?ps[nat c := (?ps ! nat c)\<lparr>hand := hand (?ps ! nat c) @ es, hasUno := u\<rparr>]"
    by blast
  have own: "hand (players (gameState g') ! nat c) = hand (?ps ! nat c) @ es"
    using ps tp i by simp
  have others: "\<forall>j < length ?ps. j \<noteq> nat c \<longrightarrow> hand (players (gameState g') ! j) = hand (?ps ! j)"
    using ps tp by simp
  show ?thesis
    using h w own others es
    by (auto simp add: penaltySize_def)
qed

theorem timeout_penalty_by_substate_witness:
  "\<exists>g'. handleTurnTimeout id 20000 waitingTable = Some (Inr (), g')
      \<and> length (hand (players (gameState g') ! 0)) = 3 \<and> \<not> waitingForUno (gameState g')
      \<and> hand (players (gameState g') ! 1) = [Some green1, Some blue3]"
proof -
  have a: "status (gameState waitingTable) = Playing" "turnExpiresAt waitingTable \<noteq> None"
    "currentPlayerIndex (gameState waitingTable) = Num 0" "(0::int) \<le> 0"
    "0 < int (length (players (gameState waitingTable)))"
    "direction (gameState waitingTable) = 1 \<or> direction (gameState waitingTable) = -1"
    by (simp_all add: waitingTable_def table_def)
  have b: "waitingForUno (gameState waitingTable)"
    "length (hand (players (gameState waitingTable) ! nat 0)) = 1"
    "\<not> hasUno (players (gameState waitingTable) ! nat 0)"
    "hand (players (gameState waitingTable) ! 1) = [Some green1, Some blue3]"
    "length (players (gameState waitingTable)) = 3"
    by (simp_all add: waitingTable_def table_def seat_def)
  from timeout_penalty_by_substate [OF a, of id 20000] b show ?thesis
    by auto
qed

text \<open>
  C4 (after a timeout the turn ends on the next connected seat, and the game pauses only
  when every seat is disconnected) fails with two seats when the timed-out seat 0 is connected and seat 1 is not: the
  loop compares the next index with the index of the timed-out seat without looking at
  that seat's \<open>disconnected\<close> flag (line 367), so the game pauses with the turn on the
  disconnected seat 1 and the timer cleared, although seat 0 is connected.
\<close>

theorem timeout_pauses_beside_connected_seat:
  assumes "status (gameState g) = Playing" and "turnExpiresAt g \<noteq> None"
    and "length (players (gameState g)) = 2"
    and "currentPlayerIndex (gameState g) = Num 0"
    and "direction (gameState g) = 1 \<or> direction (gameState g) = -1"
    and "\<not> disconnected (players (gameState g) ! 0)"
    and "disconnected (players (gameState g) ! 1)"
  shows "\<exists>g'. handleTurnTimeout pick now g = Some (Inr (), g')
           \<and> currentPlayerIndex (gameState g') = Num 1
           \<and> disconnected (players (gameState g') ! 1)
           \<and> \<not> disconnected (players (gameState g') ! 0)
           \<and> turnExpiresAt g' = None \<and> turnTimer g' = None"
proof -
  let ?ps = "players (gameState g)"
  let ?g2 = "afterPenalty pick g"
  have c: "(0::int) \<le> 0" "0 < int (length ?ps)" using assms(3) by simp_all
  from handleTurnTimeout_returns [OF assms(1,2,4) c assms(5), of pick now] obtain paused g1 where
    sk: "skipDisconnected (Num 0) ?g2 = Some (Inr paused, g1)"
    and h: "handleTurnTimeout pick now g = Some (Inr (), if paused then g1 else startTurnTimer now g1)"
    by blast
  let ?gs1 = "(timeoutPenalty pick 0 (gameState g))\<lparr>hasDrawnPlayableCard := False\<rparr>"
  have gs2: "gameState ?g2 = nextTurn ?gs1"
    using assms(4) by (simp add: afterPenalty_def indexOf_def)
  have i: "0 < length ?ps" using assms(3) by simp
  from timeoutPenalty_players [OF i, of pick] obtain es u where
    tp: "players (timeoutPenalty pick 0 (gameState g))
         = ?ps[0 := (?ps ! 0)\<lparr>hand := hand (?ps ! 0) @ es, hasUno := u\<rparr>]"
    by blast
  have ps2: "players (gameState ?g2)
      = map (\<lambda>p. p\<lparr>hasUno := False\<rparr>) (?ps[0 := (?ps ! 0)\<lparr>hand := hand (?ps ! 0) @ es, hasUno := u\<rparr>])"
    using tp by (simp add: gs2 nextTurn_fields)
  have len2: "length (players (gameState ?g2)) = 2" using ps2 assms(3) by simp
  have d2: "direction (gameState ?g2) = direction (gameState g)"
    by (simp add: gs2 nextTurn_fields timeoutPenalty_fields)
  have adv1: "advanceIndex ?gs1 = Num ((0 + direction (gameState g)) mod 2)"
    using advanceIndex_in_range [of ?gs1 0] assms(3,4,5) by (simp add: timeoutPenalty_fields)
  have cpi2: "currentPlayerIndex (gameState ?g2) = Num 1"
    using adv1 assms(5) by (auto simp add: gs2 nextTurn_fields)
  have adv2: "advanceIndex (gameState ?g2) = Num 0"
    using advanceIndex_in_range [of "gameState ?g2" 1] cpi2 len2 d2 assms(5) by auto
  have disc: "disconnected (players (gameState ?g2) ! 1)" "\<not> disconnected (players (gameState ?g2) ! 0)"
    using ps2 assms(3,6,7) by simp_all
  have "skipDisconnected (Num 0) ?g2 = Some (Inr True, clearTurnTimer ?g2)"
    using cpi2 len2 adv2 disc
    by (subst skipDisconnected.simps) (simp add: playerAt_def jsStrictEq_def)
  with sk have "paused" "g1 = clearTurnTimer ?g2" by simp_all
  with h have "handleTurnTimeout pick now g = Some (Inr (), clearTurnTimer ?g2)" by simp
  then show ?thesis using cpi2 disc by (simp add: clearTurnTimer_def)
qed

theorem timeout_pauses_beside_connected_seat_witness:
  "\<exists>g'. handleTurnTimeout id 20000 loneSeatTable = Some (Inr (), g')
           \<and> currentPlayerIndex (gameState g') = Num 1
           \<and> disconnected (players (gameState g') ! 1)
           \<and> \<not> disconnected (players (gameState g') ! 0)
           \<and> turnExpiresAt g' = None \<and> turnTimer g' = None"
  by (rule timeout_pauses_beside_connected_seat)
     (simp_all add: loneSeatTable_def table_def seat_def)

section \<open>Turn advance\<close>

lemma idle_nextTurn: "idle (nextTurn gs)"
  by (auto simp add: idle_def nextTurn_def)

lemma endTurn_idle:
  assumes "endTurn playerId now g = (Inr r, g')" "success r"
  shows "idle (gameState g')"
  using assms
  by (auto simp add: endTurn_def Let_def failure_def deferStart_def clearTurnTimer_def idle_nextTurn
      split: if_splits)

lemma callUno_idle:
  assumes "callUno playerId now g = (Inr r, g')" "success r"
  shows "idle (gameState g')"
  using assms
  by (auto simp add: callUno_def Let_def failure_def deferStart_def clearTurnTimer_def idle_nextTurn
      split: if_splits)

lemma startTurnTimerWithDuration_gameState:
  "gameState (startTurnTimerWithDuration d now g) = gameState g"
  by (simp add: startTurnTimerWithDuration_def clearTurnTimer_def Let_def split: option.splits)

lemma drawCard_idle:
  assumes "drawCard playerId pick now g = (Inr r, g')" "canPlayImmediately r = Some False"
  shows "idle (gameState g')"
  using assms
  by (auto simp add: drawCard_def Let_def failure_def succeeded_def deferStart_def clearTurnTimer_def
      idle_nextTurn split: if_splits sum.splits prod.splits)

lemma playCardAdvance_idle:
  assumes "playCardAdvance c pick now g = (Inr r, g')"
  shows "idle (gameState g')"
  using assms
  by (auto simp add: playCardAdvance_def Let_def deferStart_def clearTurnTimer_def
      idle_nextTurn split: if_splits option.splits)

lemma playCardAdvance_success:
  assumes "playCardAdvance c pick now g = (Inr r, g')"
  shows "success r"
  using assms
  by (auto simp add: playCardAdvance_def Let_def succeeded_def split: if_splits option.splits)

lemma playCardAccepted_success:
  assumes "playCardAccepted i k c chosenColor pick now g = (Inr r, g')"
  shows "success r"
  using assms
  by (auto simp add: playCardAccepted_def Let_def succeeded_def playCardAdvance_success
      split: if_splits)

lemma playCard_cases:
  assumes "playCard playerId cardIndex chosenColor pick now g = (Inr r, g')"
  obtains (rejected) m where "r = failure m" "g' = g" "m \<noteq> ''Card played''"
  | (accepted) i c where "playCardAccepted i (nat cardIndex) c chosenColor pick now g = (Inr r, g')"
  using assms
  by (auto simp add: playCard_def Let_def split: if_splits option.splits sum.splits)

lemma playCard_idle:
  assumes "playCard playerId cardIndex chosenColor pick now g = (Inr r, g')"
    and "message r = ''Card played''"
  shows "idle (gameState g')"
  using assms(1)
proof (cases rule: playCard_cases)
  case (rejected m)
  with assms(2) show ?thesis by (simp add: failure_def)
next
  case (accepted i c)
  with assms(2) have "playCardAdvance c pick now
       (g\<lparr>gameState := placeCard i (nat cardIndex) c chosenColor (gameState g)\<rparr>) = (Inr r, g')"
    by (auto simp add: playCardAccepted_def Let_def succeeded_def split: if_splits)
  then show ?thesis by (rule playCardAdvance_idle)
qed

lemma playCard_failure_unchanged:
  assumes "playCard playerId cardIndex chosenColor pick now g = (Inr r, g')" "\<not> success r"
  shows "g' = g"
  using assms(1)
proof (cases rule: playCard_cases)
  case (rejected m)
  then show ?thesis by simp
next
  case (accepted i c)
  with assms(2) playCardAccepted_success show ?thesis by blast
qed

lemma endTurn_failure_unchanged:
  assumes "endTurn playerId now g = (Inr r, g')" "\<not> success r"
  shows "g' = g"
  using assms
  by (auto simp add: endTurn_def Let_def succeeded_def split: if_splits)

lemma callUno_failure_unchanged:
  assumes "callUno playerId now g = (Inr r, g')" "\<not> success r"
  shows "g' = g"
  using assms
  by (auto simp add: callUno_def Let_def succeeded_def split: if_splits)

lemma handleTurnTimeout_idle:
  assumes "handleTurnTimeout pick now g = Some (Inr u, g')"
    and "status (gameState g) = Playing" "turnExpiresAt g \<noteq> None"
  shows "idle (gameState g')"
proof -
  from assms obtain paused g1 where
    sk: "skipDisconnected (currentPlayerIndex (gameState g)) (afterPenalty pick g) = Some (Inr paused, g1)"
    and g': "g' = (if paused then g1 else startTurnTimer now g1)"
    by (auto simp add: handleTurnTimeout_def Let_def afterPenalty_def
        split: option.splits sum.splits prod.splits if_splits)
  from skipDisconnected_sameTable [OF sk] have
    e: "gameState g1 = (gameState (afterPenalty pick g))\<lparr>currentPlayerIndex := currentPlayerIndex (gameState g1)\<rparr>"
    by (simp add: sameTable_def)
  have "idle (gameState (afterPenalty pick g))" by (simp add: afterPenalty_def idle_nextTurn)
  then have "idle ((gameState (afterPenalty pick g))\<lparr>currentPlayerIndex := currentPlayerIndex (gameState g1)\<rparr>)"
    by (simp add: idle_def)
  with e have "idle (gameState g1)" by simp
  then show ?thesis using g'
    by (simp add: startTurnTimer_def startTurnTimerWithDuration_gameState)
qed

text \<open>
  C10. \<open>nextTurn\<close> leaves the game idle: \<open>hasDrawnPlayableCard\<close>,
  \<open>hasPlayedCardThisTurn\<close> and \<open>waitingForUno\<close> are false and no player has
  \<open>hasUno\<close> set. The same holds of the game left by every operation that advances the
  turn: \<open>playCard\<close> answering \<open>Card played\<close>, \<open>drawCard\<close> of an unplayable card,
  \<open>endTurn\<close>, \<open>callUno\<close> and a turn timeout that passes the race guard.
\<close>

theorem turn_advance_resets_flags:
  "idle (nextTurn gs)
   \<and> (playCard playerId cardIndex chosenColor pick now g = (Inr r, g') \<and> message r = ''Card played''
        \<longrightarrow> idle (gameState g'))
   \<and> (drawCard playerId pick now g = (Inr r, g') \<and> canPlayImmediately r = Some False
        \<longrightarrow> idle (gameState g'))
   \<and> (endTurn playerId now g = (Inr r, g') \<and> success r \<longrightarrow> idle (gameState g'))
   \<and> (callUno playerId now g = (Inr r, g') \<and> success r \<longrightarrow> idle (gameState g'))
   \<and> (handleTurnTimeout pick now g = Some (Inr u, g') \<and> status (gameState g) = Playing
        \<and> turnExpiresAt g \<noteq> None \<longrightarrow> idle (gameState g'))"
proof (intro conjI impI)
  show "idle (nextTurn gs)" by (rule idle_nextTurn)
next
  assume "playCard playerId cardIndex chosenColor pick now g = (Inr r, g') \<and> message r = ''Card played''"
  then show "idle (gameState g')" using playCard_idle by blast
next
  assume "drawCard playerId pick now g = (Inr r, g') \<and> canPlayImmediately r = Some False"
  then show "idle (gameState g')" using drawCard_idle by blast
next
  assume "endTurn playerId now g = (Inr r, g') \<and> success r"
  then show "idle (gameState g')" using endTurn_idle by blast
next
  assume "callUno playerId now g = (Inr r, g') \<and> success r"
  then show "idle (gameState g')" using callUno_idle by blast
next
  assume "handleTurnTimeout pick now g = Some (Inr u, g') \<and> status (gameState g) = Playing
        \<and> turnExpiresAt g \<noteq> None"
  then show "idle (gameState g')" using handleTurnTimeout_idle by blast
qed

theorem turn_advance_resets_flags_witness:
  "hasDrawnPlayableCard flaggedState \<and> hasPlayedCardThisTurn flaggedState \<and> waitingForUno flaggedState
   \<and> map hasUno (players flaggedState) = [True, True]
   \<and> idle (nextTurn flaggedState)
   \<and> idle (gameState (snd (playCard ''s0'' 0 None id 9000 reverseTable)))
   \<and> idle (gameState (snd (drawCard ''s0'' id 9000 stuckTable)))
   \<and> idle (gameState (snd (endTurn ''s0'' 9000 decidingTable)))
   \<and> idle (gameState (snd (callUno ''s0'' 9000 lastCardTable)))
   \<and> (\<exists>g'. handleTurnTimeout id 20000 waitingTable = Some (Inr (), g') \<and> idle (gameState g'))"
proof -
  have f: "hasDrawnPlayableCard flaggedState \<and> hasPlayedCardThisTurn flaggedState
      \<and> waitingForUno flaggedState \<and> map hasUno (players flaggedState) = [True, True]"
    by (simp add: flaggedState_def duel_def table_def seat_def)
  have n: "idle (nextTurn flaggedState)"
    using turn_advance_resets_flags [of flaggedState] by simp
  have "\<exists>r g'. playCard ''s0'' 0 None id 9000 reverseTable = (Inr r, g') \<and> message r = ''Card played''"
    by (simp add: playCard_def playCardAccepted_def placeCard_def playCardAdvance_def
        reverseTable_def table_def seat_def reverseCard_def isActionValue_def
        findIndex_def red7_def Let_def succeeded_def)
  then obtain r1 g1 where
    e1: "playCard ''s0'' 0 None id 9000 reverseTable = (Inr r1, g1) \<and> message r1 = ''Card played''"
    by blast
  have p: "idle (gameState (snd (playCard ''s0'' 0 None id 9000 reverseTable)))"
    using turn_advance_resets_flags [where playerId = "''s0''" and cardIndex = 0 and chosenColor = None
        and pick = id and now = 9000 and g = reverseTable and r = r1 and g' = g1] e1
    by simp
  have "\<exists>r g'. drawCard ''s0'' id 9000 stuckTable = (Inr r, g') \<and> canPlayImmediately r = Some False"
    by (simp add: drawCard_def stuckTable_def table_def seat_def findIndex_def hasPlayableCard_def
        pop_def truthyTime_def clearTurnTimer_def red7_def blue3_def green1_def Let_def succeeded_def)
  then obtain r2 g2 where
    e2: "drawCard ''s0'' id 9000 stuckTable = (Inr r2, g2) \<and> canPlayImmediately r2 = Some False"
    by blast
  have d: "idle (gameState (snd (drawCard ''s0'' id 9000 stuckTable)))"
    using turn_advance_resets_flags [where playerId = "''s0''" and pick = id and now = 9000
        and g = stuckTable and r = r2 and g' = g2] e2
    by simp
  have "\<exists>r g'. endTurn ''s0'' 9000 decidingTable = (Inr r, g') \<and> success r"
    by (simp add: endTurn_def decidingTable_def duel_def table_def seat_def findIndex_def
        Let_def succeeded_def)
  then obtain r3 g3 where e3: "endTurn ''s0'' 9000 decidingTable = (Inr r3, g3) \<and> success r3"
    by blast
  have e: "idle (gameState (snd (endTurn ''s0'' 9000 decidingTable)))"
    using turn_advance_resets_flags [where playerId = "''s0''" and now = 9000
        and g = decidingTable and r = r3 and g' = g3] e3
    by simp
  have "\<exists>r g'. callUno ''s0'' 9000 lastCardTable = (Inr r, g') \<and> success r"
    by (simp add: callUno_def lastCardTable_def table_def seat_def findIndex_def
        Let_def succeeded_def)
  then obtain r4 g4 where e4: "callUno ''s0'' 9000 lastCardTable = (Inr r4, g4) \<and> success r4"
    by blast
  have c: "idle (gameState (snd (callUno ''s0'' 9000 lastCardTable)))"
    using turn_advance_resets_flags [where playerId = "''s0''" and now = 9000
        and g = lastCardTable and r = r4 and g' = g4] e4
    by simp
  have a: "status (gameState waitingTable) = Playing" "turnExpiresAt waitingTable \<noteq> None"
    "currentPlayerIndex (gameState waitingTable) = Num 0" "(0::int) \<le> 0"
    "0 < int (length (players (gameState waitingTable)))"
    "direction (gameState waitingTable) = 1 \<or> direction (gameState waitingTable) = -1"
    by (simp_all add: waitingTable_def table_def)
  from handleTurnTimeout_players [OF a, of id 20000] obtain g5 where
    e5: "handleTurnTimeout id 20000 waitingTable = Some (Inr (), g5)" by blast
  have t: "\<exists>g'. handleTurnTimeout id 20000 waitingTable = Some (Inr (), g') \<and> idle (gameState g')"
    using turn_advance_resets_flags [where pick = id and now = 20000 and g = waitingTable
        and u = "()" and g' = g5] e5 a(1,2)
    by simp
  from f n p d e c t show ?thesis by simp
qed

section \<open>The card count\<close>

lemma afk_idling: "idling 93 afkGame" by code_simp

lemma hands_update:
  "i < length ps \<Longrightarrow>
     sum_list (map (\<lambda>p. length (hand p)) (ps[i := q])) + length (hand (ps ! i))
       = sum_list (map (\<lambda>p. length (hand p)) ps) + length (hand q)"
  by (induction ps arbitrary: i) (auto split: nat.splits)

lemma drawInto_counts:
  assumes "i < length (players gs)" "deck gs \<noteq> []"
  shows "length (deck (drawInto pick i gs)) = length (deck gs) - 1"
    and "discardPile (drawInto pick i gs) = discardPile gs"
    and "totalCards (drawInto pick i gs) = totalCards gs"
proof -
  let ?p = "players gs ! i"
  have e: "drawInto pick i gs = gs\<lparr>deck := butlast (deck gs),
      players := (players gs)[i := ?p\<lparr>hand := hand ?p @ [Some (last (deck gs))]\<rparr>]\<rparr>"
    using assms(2) by (simp add: drawInto_def pop_def Let_def)
  show "length (deck (drawInto pick i gs)) = length (deck gs) - 1" by (simp add: e)
  show "discardPile (drawInto pick i gs) = discardPile gs" by (simp add: e)
  have "0 < length (deck gs)" using assms(2) by simp
  with hands_update [OF assms(1), of "?p\<lparr>hand := hand ?p @ [Some (last (deck gs))]\<rparr>"]
  show "totalCards (drawInto pick i gs) = totalCards gs"
    by (simp add: e totalCards_def)
qed

lemma drawInto_exhausted:
  assumes "i < length (players gs)" "deck gs = []" "length (discardPile gs) \<le> 1"
  shows "deck (drawInto pick i gs) = []"
    and "discardPile (drawInto pick i gs) = discardPile gs"
    and "totalCards (drawInto pick i gs) = totalCards gs + 1"
    and "hand (players (drawInto pick i gs) ! i) = hand (players gs ! i) @ [None]"
proof -
  let ?p = "players gs ! i"
  have e: "drawInto pick i gs = gs\<lparr>deck := [],
      players := (players gs)[i := ?p\<lparr>hand := hand ?p @ [None]\<rparr>]\<rparr>"
    using assms(2,3) by (simp add: drawInto_def pop_def reshuffleDeck_def Let_def)
  show "deck (drawInto pick i gs) = []" by (simp add: e)
  show "discardPile (drawInto pick i gs) = discardPile gs" by (simp add: e)
  show "hand (players (drawInto pick i gs) ! i) = hand (players gs ! i) @ [None]"
    using assms(1) by (simp add: e)
  from hands_update [OF assms(1), of "?p\<lparr>hand := hand ?p @ [None]\<rparr>"] assms(2)
  show "totalCards (drawInto pick i gs) = totalCards gs + 1"
    by (simp add: e totalCards_def)
qed

lemma timeoutPenalty_plain:
  assumes "\<not> waitingForUno gs" "\<not> hasDrawnPlayableCard gs" "i < length (players gs)"
  shows "deck (timeoutPenalty pick i gs) = deck (drawInto pick i gs)"
    and "discardPile (timeoutPenalty pick i gs) = discardPile (drawInto pick i gs)"
    and "totalCards (timeoutPenalty pick i gs) = totalCards (drawInto pick i gs)"
    and "map disconnected (players (timeoutPenalty pick i gs)) = map disconnected (players gs)"
proof -
  let ?gs1 = "drawInto pick i gs"
  let ?q = "if length (hand (players ?gs1 ! i)) > 1
             then (players ?gs1 ! i)\<lparr>hasUno := False\<rparr> else players ?gs1 ! i"
  have tp: "timeoutPenalty pick i gs = ?gs1\<lparr>players := (players ?gs1)[i := ?q], waitingForUno := False\<rparr>"
    using assms(1,2) by (simp add: timeoutPenalty_def Let_def)
  show "deck (timeoutPenalty pick i gs) = deck ?gs1" by (simp add: tp)
  show "discardPile (timeoutPenalty pick i gs) = discardPile ?gs1" by (simp add: tp)
  have i1: "i < length (players ?gs1)" using assms(3) by (simp add: drawInto_fields)
  have hq: "length (hand ?q) = length (hand (players ?gs1 ! i))" by simp
  from hands_update [OF i1, of ?q] hq
  show "totalCards (timeoutPenalty pick i gs) = totalCards ?gs1"
    by (simp add: tp totalCards_def)
  have "map disconnected ((players ?gs1)[i := ?q]) = map disconnected (players ?gs1)"
    by (simp add: map_update list_update_same_conv i1)
  moreover have "map disconnected (players ?gs1) = map disconnected (players gs)"
    using assms(3) by (simp add: drawInto_players_entry map_update list_update_same_conv)
  ultimately show "map disconnected (players (timeoutPenalty pick i gs)) = map disconnected (players gs)"
    by (simp add: tp)
qed

lemma startTurnTimer_arms:
  assumes "status (gameState g) = Playing" "currentPlayerIndex (gameState g) = Num c" "0 \<le> c"
    "c < int (length (players (gameState g)))"
  shows "turnTimer (startTurnTimer now g) = Some (now + turnTimeLimit)"
    and "turnExpiresAt (startTurnTimer now g) = Some (now + turnTimeLimit)"
    and "gameState (startTurnTimer now g) = gameState g"
proof -
  have ne: "players (gameState g) \<noteq> []" using assms(3,4) by auto
  have pa: "playerAt (players (gameState g)) (Num c) = Some (players (gameState g) ! nat c)"
    using assms(3,4) by (simp add: playerAt_def)
  show "turnTimer (startTurnTimer now g) = Some (now + turnTimeLimit)"
    and "turnExpiresAt (startTurnTimer now g) = Some (now + turnTimeLimit)"
    using assms ne pa
    by (simp_all add: startTurnTimer_def startTurnTimerWithDuration_def clearTurnTimer_def Let_def
        jsless_def jsgeq_def)
  show "gameState (startTurnTimer now g) = gameState g"
    by (simp add: startTurnTimer_def startTurnTimerWithDuration_gameState)
qed

lemma idling_timeout:
  assumes "idling m g"
  shows "\<exists>g'. handleTurnTimeout pick now g = Some (Inr (), g')
           \<and> (if m = 0 then totalCards (gameState g') = 109 else idling (m - 1) g')"
proof -
  let ?gs = "gameState g"
  from assms have st: "status ?gs = Playing" and len: "length (players ?gs) = 2"
    and dir: "direction ?gs = 1 \<or> direction ?gs = -1"
    and conn: "map disconnected (players ?gs) = [False, False]"
    and nw: "\<not> waitingForUno ?gs" and nd: "\<not> hasDrawnPlayableCard ?gs"
    and pile: "length (discardPile ?gs) = 1" and dk: "length (deck ?gs) = m"
    and tot: "totalCards ?gs = 108" and tm: "turnExpiresAt g \<noteq> None"
    by (simp_all add: idling_def)
  from assms obtain c where c: "currentPlayerIndex ?gs = Num c" "c = 0 \<or> c = 1"
    by (auto simp add: idling_def)
  have cr: "0 \<le> c" "c < int (length (players ?gs))" using c(2) len by auto
  have i: "nat c < length (players ?gs)" using cr by linarith
  let ?tp = "timeoutPenalty pick (nat c) ?gs"
  let ?gs1 = "?tp\<lparr>hasDrawnPlayableCard := False\<rparr>"
  let ?g2 = "afterPenalty pick g"
  have gs2: "gameState ?g2 = nextTurn ?gs1"
    using c(1) by (simp add: afterPenalty_def indexOf_def)
  have adv: "advanceIndex ?gs1 = Num ((c + direction ?gs) mod 2)"
    using advanceIndex_in_range [of ?gs1 c] c(1) cr dir len by (simp add: timeoutPenalty_fields)
  obtain c' where c': "currentPlayerIndex (gameState ?g2) = Num c'" "c' = 0 \<or> c' = 1"
    using adv dir c(2) by (auto simp add: gs2 nextTurn_fields)
  have conn2: "map disconnected (players (gameState ?g2)) = [False, False]"
    using timeoutPenalty_plain(4) [OF nw nd i, of pick] conn
    by (simp add: gs2 nextTurn_fields comp_def)
  have len2: "length (players (gameState ?g2)) = 2"
    using len by (simp add: gs2 nextTurn_fields timeoutPenalty_fields)
  have nd2: "\<not> disconnected (players (gameState ?g2) ! nat c')"
  proof -
    from conn2 len2 c'(2) have "map disconnected (players (gameState ?g2)) ! nat c' = False"
      by auto
    moreover have "nat c' < length (players (gameState ?g2))" using len2 c'(2) by auto
    ultimately show ?thesis by simp
  qed
  have sk: "skipDisconnected (Num c) ?g2 = Some (Inr False, ?g2)"
    using c' len2 nd2
    by (subst skipDisconnected.simps) (auto simp add: playerAt_def)
  from handleTurnTimeout_returns [OF st tm c(1) cr dir, of pick now] obtain paused g1 where
    "skipDisconnected (Num c) ?g2 = Some (Inr paused, g1)"
    "handleTurnTimeout pick now g = Some (Inr (), if paused then g1 else startTurnTimer now g1)"
    by blast
  with sk have h: "handleTurnTimeout pick now g = Some (Inr (), startTurnTimer now ?g2)" by simp
  let ?g' = "startTurnTimer now ?g2"
  have st2: "status (gameState ?g2) = Playing"
    using st by (simp add: gs2 nextTurn_fields timeoutPenalty_fields)
  have c'r: "0 \<le> c'" "c' < int (length (players (gameState ?g2)))" using c'(2) len2 by auto
  note arm = startTurnTimer_arms [OF st2 c'(1) c'r, of now]
  have gs': "gameState ?g' = nextTurn ?gs1" using arm(3) gs2 by simp
  have tot': "totalCards (gameState ?g') = totalCards (drawInto pick (nat c) ?gs)"
    using timeoutPenalty_plain(3) [OF nw nd i, of pick]
    by (simp add: gs' totalCards_def nextTurn_fields comp_def)
  have dk': "deck (gameState ?g') = deck (drawInto pick (nat c) ?gs)"
    using timeoutPenalty_plain(1) [OF nw nd i, of pick] by (simp add: gs' nextTurn_fields)
  have pile': "discardPile (gameState ?g') = discardPile (drawInto pick (nat c) ?gs)"
    using timeoutPenalty_plain(2) [OF nw nd i, of pick] by (simp add: gs' nextTurn_fields)
  show ?thesis
  proof (cases "m = 0")
    case True
    with dk have e: "deck ?gs = []" by simp
    from drawInto_exhausted(3) [OF i e, of pick] pile tot tot' True h
    show ?thesis by simp
  next
    case False
    with dk have ne: "deck ?gs \<noteq> []" by auto
    note dc = drawInto_counts [OF i ne, of pick]
    have "idling (m - 1) ?g'"
      unfolding idling_def
      using st2 len2 c' conn2 dir dc dk tot pile tot' dk' pile' arm gs2
      by (simp add: gs' nextTurn_fields timeoutPenalty_fields)
    with False h show ?thesis by simp
  qed
qed

lemma idling_timeouts:
  assumes "idling m g"
  shows "\<exists>g'. timeouts (Suc m) g = Some g' \<and> totalCards (gameState g') = 109"
  using assms
proof (induction m arbitrary: g)
  case 0
  from "0.prems" obtain due where due: "turnTimer g = Some due" by (auto simp add: idling_def)
  from idling_timeout [OF "0.prems", of id due] obtain g1 where
    "handleTurnTimeout id due g = Some (Inr (), g1)" "totalCards (gameState g1) = 109" by auto
  with due show ?case by simp
next
  case (Suc m)
  from Suc.prems obtain due where due: "turnTimer g = Some due" by (auto simp add: idling_def)
  from idling_timeout [OF Suc.prems, of id due] obtain g1 where
    g1: "handleTurnTimeout id due g = Some (Inr (), g1)" "idling m g1" by auto
  from Suc.IH [OF g1(2)] obtain g' where
    "timeouts (Suc m) g1 = Some g'" "totalCards (gameState g') = 109" by blast
  with due g1(1) show ?case by simp
qed

text \<open>
  C1 (the card count is 108 in every reachable state) fails on the code. In the two-seat
  game \<open>afkGame\<close> nobody acts and the turn timer expires
  94 times. The 93 cards of the deck go to the hands one by one with the discard pile
  still at one card; at the 94th timeout the deck is empty, \<open>reshuffleDeck\<close> refuses
  (lines 113-116), \<open>deck.pop()\<close> is \<open>undefined\<close> and line 347 pushes it on the hand:
  the count is 109.
\<close>

theorem afk_table_holds_109_entries:
  "totalCards (gameState afkGame) = 108
   \<and> (\<exists>g. timeouts 94 afkGame = Some g \<and> totalCards (gameState g) = 109)"
proof -
  from afk_idling have t: "totalCards (gameState afkGame) = 108" by (simp add: idling_def)
  have n: "(94::nat) = Suc 93" by simp
  from idling_timeouts [OF afk_idling] t show ?thesis unfolding n by blast
qed

section \<open>Timeout penalties and the stock\<close>

lemma handleTurnTimeout_state:
  assumes "status (gameState g) = Playing" "turnExpiresAt g \<noteq> None"
    and "currentPlayerIndex (gameState g) = Num c" "0 \<le> c" "c < int (length (players (gameState g)))"
    and "direction (gameState g) = 1 \<or> direction (gameState g) = -1"
  shows "\<exists>g' x. handleTurnTimeout pick now g = Some (Inr (), g')
           \<and> gameState g' = (nextTurn ((timeoutPenalty pick (nat c) (gameState g))
                                 \<lparr>hasDrawnPlayableCard := False\<rparr>))\<lparr>currentPlayerIndex := x\<rparr>"
proof -
  from handleTurnTimeout_returns [OF assms, of pick now] obtain paused g1 where
    sk: "skipDisconnected (Num c) (afterPenalty pick g) = Some (Inr paused, g1)"
    and h: "handleTurnTimeout pick now g = Some (Inr (), if paused then g1 else startTurnTimer now g1)"
    by blast
  from skipDisconnected_sameTable [OF sk] have e:
    "gameState g1 = (gameState (afterPenalty pick g))\<lparr>currentPlayerIndex := currentPlayerIndex (gameState g1)\<rparr>"
    by (simp add: sameTable_def)
  have st: "gameState (startTurnTimer now g1) = gameState g1"
    by (simp add: startTurnTimer_def startTurnTimerWithDuration_gameState)
  have ap: "gameState (afterPenalty pick g)
      = nextTurn ((timeoutPenalty pick (nat c) (gameState g))\<lparr>hasDrawnPlayableCard := False\<rparr>)"
    using assms(3) by (simp add: afterPenalty_def indexOf_def)
  let ?g' = "if paused then g1 else startTurnTimer now g1"
  have "gameState ?g' = gameState g1" using st by simp
  with e ap have "gameState ?g' = (nextTurn ((timeoutPenalty pick (nat c) (gameState g))
       \<lparr>hasDrawnPlayableCard := False\<rparr>))\<lparr>currentPlayerIndex := currentPlayerIndex (gameState g1)\<rparr>"
    by simp
  with h show ?thesis by blast
qed

lemma timeoutPenalty_bare_exhausted:
  assumes "\<not> waitingForUno gs" "\<not> hasDrawnPlayableCard gs" "i < length (players gs)"
    and "deck gs = []" "length (discardPile gs) \<le> 1"
  shows "hand (players (timeoutPenalty pick i gs) ! i) = hand (players gs ! i) @ [None]"
    and "deck (timeoutPenalty pick i gs) = []"
    and "discardPile (timeoutPenalty pick i gs) = discardPile gs"
proof -
  let ?gs1 = "drawInto pick i gs"
  let ?q = "if length (hand (players ?gs1 ! i)) > 1
             then (players ?gs1 ! i)\<lparr>hasUno := False\<rparr> else players ?gs1 ! i"
  have tp: "timeoutPenalty pick i gs = ?gs1\<lparr>players := (players ?gs1)[i := ?q], waitingForUno := False\<rparr>"
    using assms(1,2) by (simp add: timeoutPenalty_def Let_def)
  have i1: "i < length (players ?gs1)" using assms(3) by (simp add: drawInto_fields)
  note ex = drawInto_exhausted [OF assms(3,4,5), of pick]
  show "hand (players (timeoutPenalty pick i gs) ! i) = hand (players gs ! i) @ [None]"
    using i1 ex(4) by (simp add: tp)
  show "deck (timeoutPenalty pick i gs) = []" using ex(1) by (simp add: tp)
  show "discardPile (timeoutPenalty pick i gs) = discardPile gs" using ex(2) by (simp add: tp)
qed

lemma idling_run:
  assumes "idling m g"
  shows "\<exists>g1. timeouts m g = Some g1 \<and> idling 0 g1"
  using assms
proof (induction m arbitrary: g)
  case 0
  then show ?case by simp
next
  case (Suc m)
  from Suc.prems obtain due where due: "turnTimer g = Some due" by (auto simp add: idling_def)
  from idling_timeout [OF Suc.prems, of id due] obtain g1 where
    g1: "handleTurnTimeout id due g = Some (Inr (), g1)" "idling m g1" by auto
  from Suc.IH [OF g1(2)] obtain g' where "timeouts m g1 = Some g'" "idling 0 g'" by blast
  with due g1(1) show ?case by simp
qed

text \<open>
  While the deck holds at least as many cards as the penalty asks for, the timed-out seat
  receives exactly that many cards, the top cards of the deck in the order they are
  popped: two after a missed UNO call, none after a drawn playable card, one otherwise.
\<close>

lemma drawInto_stocked:
  assumes "deck gs \<noteq> []"
  shows "drawInto pick i gs = gs\<lparr>deck := butlast (deck gs),
      players := (players gs)[i := (players gs ! i)\<lparr>hand := hand (players gs ! i) @ [Some (last (deck gs))]\<rparr>]\<rparr>"
  using assms by (simp add: drawInto_def pop_def Let_def)

lemma drawN_stocked:
  assumes "k \<le> length (deck gs)" "i < length (players gs)"
  shows "deck (drawN pick i k gs) = take (length (deck gs) - k) (deck gs)
       \<and> hand (players (drawN pick i k gs) ! i)
           = hand (players gs ! i) @ map Some (rev (drop (length (deck gs) - k) (deck gs)))
       \<and> discardPile (drawN pick i k gs) = discardPile gs"
  using assms
proof (induction k arbitrary: gs)
  case 0
  then show ?case by simp
next
  case (Suc k)
  let ?d = "deck gs"
  let ?n = "length ?d"
  have ne: "?d \<noteq> []" using Suc.prems(1) by auto
  let ?gs1 = "drawInto pick i gs"
  note e = drawInto_stocked [OF ne, of pick i]
  have d1: "deck ?gs1 = butlast ?d" by (simp add: e)
  have h1: "hand (players ?gs1 ! i) = hand (players gs ! i) @ [Some (last ?d)]"
    using Suc.prems(2) by (simp add: e)
  have p1: "discardPile ?gs1 = discardPile gs" by (simp add: e)
  have k1: "k \<le> length (deck ?gs1)" using Suc.prems(1) d1 by simp
  have i1: "i < length (players ?gs1)" using Suc.prems(2) by (simp add: drawInto_fields)
  from Suc.IH [OF k1 i1] have ih:
    "deck (drawN pick i k ?gs1) = take (length (butlast ?d) - k) (butlast ?d)"
    "hand (players (drawN pick i k ?gs1) ! i)
       = (hand (players gs ! i) @ [Some (last ?d)])
         @ map Some (rev (drop (length (butlast ?d) - k) (butlast ?d)))"
    "discardPile (drawN pick i k ?gs1) = discardPile gs"
    by (simp_all add: d1 h1 p1)
  have m: "length (butlast ?d) - k = ?n - Suc k" by simp
  have le: "?n - Suc k \<le> length (butlast ?d)" by simp
  have t: "take (?n - Suc k) (butlast ?d) = take (?n - Suc k) ?d"
    using le by (simp add: butlast_conv_take min_def)
  have "?d = butlast ?d @ [last ?d]" using ne by simp
  then have "drop (?n - Suc k) ?d = drop (?n - Suc k) (butlast ?d @ [last ?d])" by simp
  also have "\<dots> = drop (?n - Suc k) (butlast ?d) @ [last ?d]" using le by simp
  finally have dr: "drop (?n - Suc k) ?d = drop (?n - Suc k) (butlast ?d) @ [last ?d]" .
  show ?case using ih m t dr by simp
qed

lemma timeoutPenalty_stocked:
  assumes "i < length (players gs)" "penaltySize gs i \<le> length (deck gs)"
  shows "deck (timeoutPenalty pick i gs) = take (length (deck gs) - penaltySize gs i) (deck gs)"
    and "hand (players (timeoutPenalty pick i gs) ! i)
           = hand (players gs ! i)
             @ map Some (rev (drop (length (deck gs) - penaltySize gs i) (deck gs)))"
proof -
  let ?a = "waitingForUno gs \<and> length (hand (players gs ! i)) = 1 \<and> \<not> hasUno (players gs ! i)"
  consider (a) "?a" | (b) "\<not> ?a" "hasDrawnPlayableCard gs" | (c) "\<not> ?a" "\<not> hasDrawnPlayableCard gs"
    by blast
  then have "deck (timeoutPenalty pick i gs) = take (length (deck gs) - penaltySize gs i) (deck gs)
     \<and> hand (players (timeoutPenalty pick i gs) ! i)
           = hand (players gs ! i)
             @ map Some (rev (drop (length (deck gs) - penaltySize gs i) (deck gs)))"
  proof cases
    case a
    then have k: "penaltySize gs i = 2" by (simp add: penaltySize_def)
    have two: "drawN pick i 2 gs = drawN pick i (Suc (Suc 0)) gs" by (simp add: numeral_2_eq_2)
    from a have tp: "timeoutPenalty pick i gs =
        (drawN pick i 2 gs)\<lparr>players := (players (drawN pick i 2 gs))[i :=
            (players (drawN pick i 2 gs) ! i)\<lparr>hasUno := False\<rparr>], waitingForUno := False\<rparr>"
      by (simp add: timeoutPenalty_def Let_def)
    have le: "2 \<le> length (deck gs)" using assms(2) k by simp
    have il: "i < length (players (drawN pick i 2 gs))" using assms(1) by (simp add: drawN_fields)
    from drawN_stocked [OF le assms(1), of pick] il k show ?thesis by (simp add: tp)
  next
    case b
    then have k: "penaltySize gs i = 0" by (auto simp add: penaltySize_def)
    from b have "timeoutPenalty pick i gs = gs\<lparr>hasDrawnPlayableCard := False\<rparr>"
      by (auto simp add: timeoutPenalty_def Let_def)
    with k show ?thesis by simp
  next
    case c
    then have k: "penaltySize gs i = 1" by (auto simp add: penaltySize_def)
    let ?gs1 = "drawInto pick i gs"
    from c have tp: "timeoutPenalty pick i gs =
        ?gs1\<lparr>players := (players ?gs1)[i :=
            (if length (hand (players ?gs1 ! i)) > 1
             then (players ?gs1 ! i)\<lparr>hasUno := False\<rparr> else players ?gs1 ! i)],
          waitingForUno := False\<rparr>"
      by (auto simp add: timeoutPenalty_def Let_def)
    have le: "Suc 0 \<le> length (deck gs)" using assms(2) k by simp
    have il: "i < length (players ?gs1)" using assms(1) by (simp add: drawInto_fields)
    from drawN_stocked [OF le assms(1), of pick] il k show ?thesis by (simp add: tp)
  qed
  then show "deck (timeoutPenalty pick i gs) = take (length (deck gs) - penaltySize gs i) (deck gs)"
    and "hand (players (timeoutPenalty pick i gs) ! i)
           = hand (players gs ! i)
             @ map Some (rev (drop (length (deck gs) - penaltySize gs i) (deck gs)))"
    by simp_all
qed

lemma timeout_penalty_cards_from_deck:
  assumes "status (gameState g) = Playing" and "turnExpiresAt g \<noteq> None"
    and "currentPlayerIndex (gameState g) = Num c" and "0 \<le> c"
    and "c < int (length (players (gameState g)))"
    and "direction (gameState g) = 1 \<or> direction (gameState g) = -1"
    and "penaltySize (gameState g) (nat c) \<le> length (deck (gameState g))"
  shows "\<exists>g'. handleTurnTimeout pick now g = Some (Inr (), g')
           \<and> hand (players (gameState g') ! nat c)
               = hand (players (gameState g) ! nat c)
                 @ map Some (rev (drop (length (deck (gameState g)) - penaltySize (gameState g) (nat c))
                                      (deck (gameState g))))
           \<and> deck (gameState g')
               = take (length (deck (gameState g)) - penaltySize (gameState g) (nat c))
                      (deck (gameState g))"
proof -
  have i: "nat c < length (players (gameState g))" using assms(4,5) by linarith
  from handleTurnTimeout_state [OF assms(1-6), of pick now] obtain g' x where
    h: "handleTurnTimeout pick now g = Some (Inr (), g')"
    and gs: "gameState g' = (nextTurn ((timeoutPenalty pick (nat c) (gameState g))
                                 \<lparr>hasDrawnPlayableCard := False\<rparr>))\<lparr>currentPlayerIndex := x\<rparr>"
    by blast
  note tp = timeoutPenalty_stocked [OF i assms(7), of pick]
  have i2: "nat c < length (players (timeoutPenalty pick (nat c) (gameState g)))"
    using i by (simp add: timeoutPenalty_fields)
  from tp i2 h show ?thesis by (simp add: gs nextTurn_fields)
qed


text \<open>
  C3 (a timeout that passes the race guard makes the hand of the timed-out seat grow by
  exactly two cards after a missed UNO call, by none after a drawn playable card and by
  exactly one card otherwise) fails on the code once the stock is exhausted: on a bare
  timeout with an empty deck and a discard pile of at most one card \<open>reshuffleDeck\<close>
  refuses (lines 113-116), \<open>deck.pop()\<close> is \<open>undefined\<close> and line 347 pushes it, so the
  hand grows by an \<open>undefined\<close> entry and by no card. The game \<open>afkGame\<close> is in that
  state after 93 timeouts.
\<close>

theorem bare_timeout_on_exhausted_stock_pushes_undefined:
  assumes "status (gameState g) = Playing" and "turnExpiresAt g \<noteq> None"
    and "currentPlayerIndex (gameState g) = Num c" and "0 \<le> c"
    and "c < int (length (players (gameState g)))"
    and "direction (gameState g) = 1 \<or> direction (gameState g) = -1"
    and "\<not> waitingForUno (gameState g)" and "\<not> hasDrawnPlayableCard (gameState g)"
    and "deck (gameState g) = []" and "length (discardPile (gameState g)) \<le> 1"
  shows "\<exists>g'. handleTurnTimeout pick now g = Some (Inr (), g')
           \<and> hand (players (gameState g') ! nat c) = hand (players (gameState g) ! nat c) @ [None]
           \<and> deck (gameState g') = [] \<and> discardPile (gameState g') = discardPile (gameState g)"
proof -
  have i: "nat c < length (players (gameState g))" using assms(4,5) by linarith
  from handleTurnTimeout_state [OF assms(1-6), of pick now] obtain g' x where
    h: "handleTurnTimeout pick now g = Some (Inr (), g')"
    and gs: "gameState g' = (nextTurn ((timeoutPenalty pick (nat c) (gameState g))
                                 \<lparr>hasDrawnPlayableCard := False\<rparr>))\<lparr>currentPlayerIndex := x\<rparr>"
    by blast
  note tp = timeoutPenalty_bare_exhausted [OF assms(7,8) i assms(9,10), of pick]
  have i2: "nat c < length (players (timeoutPenalty pick (nat c) (gameState g)))"
    using i by (simp add: timeoutPenalty_fields)
  have "hand (players (gameState g') ! nat c) = hand (players (gameState g) ! nat c) @ [None]"
    using tp(1) i2 by (simp add: gs nextTurn_fields)
  moreover have "deck (gameState g') = []" using tp(2) by (simp add: gs nextTurn_fields)
  moreover have "discardPile (gameState g') = discardPile (gameState g)"
    using tp(3) by (simp add: gs nextTurn_fields)
  ultimately show ?thesis using h by blast
qed

theorem bare_timeout_on_exhausted_stock_pushes_undefined_witness:
  "\<exists>g1 g2 due c. timeouts 93 afkGame = Some g1
      \<and> deck (gameState g1) = [] \<and> length (discardPile (gameState g1)) = 1
      \<and> turnTimer g1 = Some due \<and> currentPlayerIndex (gameState g1) = Num c
      \<and> handleTurnTimeout id due g1 = Some (Inr (), g2)
      \<and> hand (players (gameState g2) ! nat c) = hand (players (gameState g1) ! nat c) @ [None]"
proof -
  from idling_run [OF afk_idling] obtain g1 where
    r: "timeouts 93 afkGame = Some g1" and i0: "idling 0 g1" by blast
  from i0 obtain due where due: "turnTimer g1 = Some due" by (auto simp add: idling_def)
  from i0 obtain c where c: "currentPlayerIndex (gameState g1) = Num c" "c = 0 \<or> c = 1"
    by (auto simp add: idling_def)
  from i0 have f: "status (gameState g1) = Playing" "turnExpiresAt g1 \<noteq> None"
    "length (players (gameState g1)) = 2"
    "direction (gameState g1) = 1 \<or> direction (gameState g1) = -1"
    "\<not> waitingForUno (gameState g1)" "\<not> hasDrawnPlayableCard (gameState g1)"
    "deck (gameState g1) = []" "length (discardPile (gameState g1)) = 1"
    by (simp_all add: idling_def)
  have cr: "0 \<le> c" "c < int (length (players (gameState g1)))" using c(2) f(3) by auto
  have p: "length (discardPile (gameState g1)) \<le> 1" using f(8) by simp
  from bare_timeout_on_exhausted_stock_pushes_undefined
         [OF f(1,2) c(1) cr f(4,5,6,7) p, of id due]
  obtain g2 where "handleTurnTimeout id due g1 = Some (Inr (), g2)"
    "hand (players (gameState g2) ! nat c) = hand (players (gameState g1) ! nat c) @ [None]"
    by blast
  with r due c(1) f(7,8) show ?thesis by blast
qed

end
